theory Spec2Isabelle
  imports
    Complex_Main
    "HOL-Library.Sublist"
    "HOL-Library.List_Lexorder"
    "HOL-Library.Product_Lexorder"
    "HOL-Library.Option_ord"
begin

text \<open>
  A model of \<open>app.py\<close>, the Thai postal code lookup service: the construction of the
  mapping from postal codes to places (\<open>fetch_and_build_mapping\<close>), the normalization
  and matching of text (\<open>normalize_text\<close>, \<open>is_match\<close>), the flattened records, and the
  handlers of the JSON API and of the search page.  Each source function is a HOL
  function of the same name; a handler takes the module-level data it reads as an
  argument.
\<close>

section \<open>Strings and the library functions the application calls\<close>

text \<open>
  A Python \<open>str\<close> is a sequence of Unicode code points; it is modelled as a list of
  natural numbers, so that \<open>length\<close> counts what \<open>len\<close> counts and the list order of
  \<open>HOL-Library.List_Lexorder\<close> is the order Python compares strings by.  Text that
  the source writes as a literal is embedded with \<open>lit\<close>.
\<close>

type_synonym pystr = "nat list"

definition lit :: "string \<Rightarrow> pystr" where
  "lit s = map of_char s"

text \<open>
  \<open>str.isspace\<close>, which is also what \<open>str.strip()\<close> removes and what \<open>\s\<close> matches in a
  \<open>str\<close> pattern of \<open>re\<close>: the characters of bidirectional class WS, B or S and of
  general category Zs.
\<close>

definition isspace :: "nat \<Rightarrow> bool" where
  "isspace c \<longleftrightarrow>
     (0x09 \<le> c \<and> c \<le> 0x0D) \<or> (0x1C \<le> c \<and> c \<le> 0x20) \<or> c = 0x85 \<or> c = 0xA0 \<or>
     c = 0x1680 \<or> (0x2000 \<le> c \<and> c \<le> 0x200A) \<or> c = 0x2028 \<or> c = 0x2029 \<or>
     c = 0x202F \<or> c = 0x205F \<or> c = 0x3000"

text \<open>
  The remaining library functions depend on tables and algorithms that are not part of
  the repository (the Unicode character database, \<open>int\<close> parsing, \<open>difflib\<close>).  They are
  parameters of the model, collected in one record:
  \<^item> \<open>ch_isdigit c\<close>: the one-character string \<open>c\<close> satisfies \<open>str.isdigit\<close>;
  \<^item> \<open>str_lower s\<close>: \<open>s.lower()\<close>;
  \<^item> \<open>int_of_str s\<close>: \<open>int(s)\<close>, with \<open>None\<close> for \<open>ValueError\<close>;
  \<^item> \<open>seq_ratio a b\<close>: \<open>SequenceMatcher(None, a, b).ratio()\<close>.
\<close>

record pylib =
  ch_isdigit :: "nat \<Rightarrow> bool"
  str_lower :: "pystr \<Rightarrow> pystr"
  int_of_str :: "pystr \<Rightarrow> int option"
  seq_ratio :: "pystr \<Rightarrow> pystr \<Rightarrow> real"

definition isdigit :: "pylib \<Rightarrow> pystr \<Rightarrow> bool" where
  "isdigit L s \<longleftrightarrow> s \<noteq> [] \<and> list_all (ch_isdigit L) s"

definition strip :: "pystr \<Rightarrow> pystr" where
  "strip s = rev (dropWhile isspace (rev (dropWhile isspace s)))"

definition startswith :: "pystr \<Rightarrow> pystr \<Rightarrow> bool" where
  "startswith s p \<longleftrightarrow> prefix p s"

text \<open>\<open>q in c\<close> on strings, and equally \<open>c.find(q) != -1\<close>.\<close>

definition contains :: "pystr \<Rightarrow> pystr \<Rightarrow> bool" where
  "contains c q \<longleftrightarrow> sublist q c"

text \<open>\<open>re.sub(r"\s+", " ", s)\<close>: every maximal run of whitespace becomes one space.\<close>

function sub_ws :: "pystr \<Rightarrow> pystr" where
  "sub_ws [] = []"
| "sub_ws (c # cs) =
     (if isspace c then 0x20 # sub_ws (dropWhile isspace cs) else c # sub_ws cs)"
  by pat_completeness auto
termination
  by (relation "measure length") (auto simp: less_Suc_eq_le length_dropWhile_le)

section \<open>Text normalization and matching\<close>

definition normalize_text :: "pylib \<Rightarrow> pystr option \<Rightarrow> pystr" where
  "normalize_text L text =
     (case text of
        None \<Rightarrow> []
      | Some t \<Rightarrow> sub_ws (str_lower L (strip t)))"

definition is_match :: "pylib \<Rightarrow> pystr option \<Rightarrow> pystr \<Rightarrow> bool \<Rightarrow> bool" where
  "is_match L candidate query fuzzy =
     (let c = normalize_text L candidate;
          q = normalize_text L (Some query)
      in if q = [] then True
         else if contains c q then True
         else if fuzzy then seq_ratio L c q \<ge> 0.75
         else False)"

section \<open>Python dictionaries\<close>

text \<open>
  A \<open>dict\<close> keeps its keys in insertion order, and the application iterates over its
  dictionaries, so a dictionary is an association list with distinct keys, in insertion
  order.
\<close>

text \<open>\<open>d[k] = v\<close>: a new key goes to the end, a present key keeps its place.\<close>

fun dict_set :: "'k \<Rightarrow> 'v \<Rightarrow> ('k \<times> 'v) list \<Rightarrow> ('k \<times> 'v) list" where
  "dict_set k v [] = [(k, v)]"
| "dict_set k v ((k', v') # d) =
     (if k' = k then (k', v) # d else (k', v') # dict_set k v d)"

text \<open>\<open>{key(x): value(x) for x in xs}\<close>, given the list of the pairs.\<close>

definition dict_comp :: "('k \<times> 'v) list \<Rightarrow> ('k \<times> 'v) list" where
  "dict_comp kvs = foldl (\<lambda>d (k, v). dict_set k v d) [] kvs"

text \<open>\<open>d.get(k)\<close> for a dictionary whose values may be \<open>None\<close>.\<close>

definition dict_get :: "('k \<times> 'v option) list \<Rightarrow> 'k \<Rightarrow> 'v option" where
  "dict_get d k = (case map_of d k of None \<Rightarrow> None | Some v \<Rightarrow> v)"

text \<open>\<open>d.setdefault(k, []).append(v)\<close>\<close>

fun setdefault_append :: "'k \<Rightarrow> 'v \<Rightarrow> ('k \<times> 'v list) list \<Rightarrow> ('k \<times> 'v list) list" where
  "setdefault_append k v [] = [(k, [v])]"
| "setdefault_append k v ((k', vs) # d) =
     (if k' = k then (k', vs @ [v]) # d else (k', vs) # setdefault_append k v d)"

section \<open>Dataset ingestion: \<open>fetch_and_build_mapping\<close>\<close>

text \<open>
  The rows are the parsed JSON document (fetching and parsing are outside the model).
  A row's \<open>zipCode\<close> is absent, \<open>null\<close>, a string or an integer; its three lists hold
  the values that the source reads from each entry with \<open>.get\<close>, \<open>None\<close> standing for an
  absent key or \<open>null\<close>: \<open>(districtId, districtName)\<close>, \<open>(provinceId, provinceName)\<close>
  and \<open>(subDistrictName, districtId)\<close>.  An absent list is the empty list, as
  \<open>record.get(..., [])\<close> makes it.  Ids are of one ordered type \<open>'i\<close>, names are strings.
\<close>

datatype zip_field = ZAbsent | ZNull | ZStr pystr | ZInt int

record 'i raw_record =
  zipCode :: zip_field
  districtList :: "('i option \<times> pystr option) list"
  provinceList :: "('i option \<times> pystr option) list"
  subDistrictList :: "(pystr option \<times> 'i option) list"

record place =
  province :: "pystr option"
  amphoe :: pystr
  district :: pystr

type_synonym zip_mapping = "(pystr \<times> place list) list"

datatype py_error = TypeError

text \<open>\<open>str(n)\<close> for an integer.\<close>

fun str_nat :: "nat \<Rightarrow> pystr" where
  "str_nat n = (if n < 10 then [0x30 + n] else str_nat (n div 10) @ [0x30 + n mod 10])"

declare str_nat.simps [simp del]

definition str_int :: "int \<Rightarrow> pystr" where
  "str_int i = (if i < 0 then 0x2D # str_nat (nat (- i)) else str_nat (nat i))"

text \<open>\<open>str(record.get("zipCode", ""))\<close>\<close>

definition str_zipCode :: "zip_field \<Rightarrow> pystr" where
  "str_zipCode z =
     (case z of ZAbsent \<Rightarrow> [] | ZNull \<Rightarrow> lit ''None'' | ZStr s \<Rightarrow> s | ZInt i \<Rightarrow> str_int i)"

text \<open>\<open>s.zfill(width)\<close>: zeros go after a leading sign.\<close>

definition zfill :: "nat \<Rightarrow> pystr \<Rightarrow> pystr" where
  "zfill width s =
     (if width \<le> length s then s
      else case s of
             [] \<Rightarrow> replicate width 0x30
           | c # cs \<Rightarrow>
               if c = 0x2B \<or> c = 0x2D then c # replicate (width - length s) 0x30 @ cs
               else replicate (width - length s) 0x30 @ s)"

definition record_code :: "'i raw_record \<Rightarrow> pystr" where
  "record_code r = zfill 5 (str_zipCode (zipCode r))"

text \<open>
  \<open>sorted(keys)\<close> of the province ids.  Comparing \<open>None\<close> with an id raises
  \<open>TypeError\<close>, and sorting two or more keys compares each of them with another one.
\<close>

definition sorted_keys :: "'i::linorder option list \<Rightarrow> py_error + 'i option list" where
  "sorted_keys ks =
     (if None \<in> set ks \<and> 2 \<le> length ks then Inl TypeError else Inr (sort ks))"

definition pick_province ::
  "('i::linorder option \<times> pystr option) list \<Rightarrow> py_error + pystr option" where
  "pick_province province_id_to_name =
     (if province_id_to_name = [] then Inr None
      else case sorted_keys (map fst province_id_to_name) of
             Inl e \<Rightarrow> Inl e
           | Inr [] \<Rightarrow> Inr None
           | Inr (key # _) \<Rightarrow> Inr (dict_get province_id_to_name key))"

text \<open>
  The loop over \<open>subDistrictList\<close>: the triples added to \<open>unique_locations\<close>, in the
  order of the additions.
\<close>

fun added_locations ::
  "pystr option \<Rightarrow> ('i option \<times> pystr option) list \<Rightarrow> (pystr option \<times> 'i option) list \<Rightarrow>
   (pystr option \<times> pystr \<times> pystr) list" where
  "added_locations province_name district_id_to_name [] = []"
| "added_locations province_name district_id_to_name ((sd_name, d_id) # sds) =
     (case (sd_name, dict_get district_id_to_name d_id) of
        (Some sd, Some am) \<Rightarrow>
          if sd = [] \<or> am = [] then added_locations province_name district_id_to_name sds
          else (province_name, am, sd) #
               added_locations province_name district_id_to_name sds
      | _ \<Rightarrow> added_locations province_name district_id_to_name sds)"

text \<open>
  \<open>sorted(unique_locations)\<close>: the set's elements in ascending order of the triple.
  All triples of one row carry the same province, so Python's comparison never reaches
  \<open>None\<close> against a string; on equal provinces the order of
  \<open>HOL-Library.Option_ord\<close> agrees with it.
\<close>

definition sorted_locations ::
  "(pystr option \<times> pystr \<times> pystr) list \<Rightarrow> (pystr option \<times> pystr \<times> pystr) list" where
  "sorted_locations unique_locations = sort (remdups unique_locations)"

definition mk_place :: "pystr option \<times> pystr \<times> pystr \<Rightarrow> place" where
  "mk_place t = (case t of (p, a, d) \<Rightarrow> \<lparr>province = p, amphoe = a, district = d\<rparr>)"

text \<open>What one row with a valid code appends to the entry of its code.\<close>

definition record_places :: "'i::linorder raw_record \<Rightarrow> py_error + place list" where
  "record_places r =
     (let district_id_to_name = dict_comp (districtList r);
          province_id_to_name = dict_comp (provinceList r)
      in case pick_province province_id_to_name of
           Inl e \<Rightarrow> Inl e
         | Inr province_name \<Rightarrow>
             Inr (map mk_place
                   (sorted_locations
                     (added_locations province_name district_id_to_name
                       (subDistrictList r)))))"

definition valid_code :: "pylib \<Rightarrow> pystr \<Rightarrow> bool" where
  "valid_code L c \<longleftrightarrow> isdigit L c \<and> length c = 5"

fun build_loop ::
  "pylib \<Rightarrow> 'i::linorder raw_record list \<Rightarrow> zip_mapping \<Rightarrow> py_error + zip_mapping" where
  "build_loop L [] zipcode_to_locations = Inr zipcode_to_locations"
| "build_loop L (r # rows) zipcode_to_locations =
     (let c = record_code r in
      if \<not> isdigit L c \<or> length c \<noteq> 5 then build_loop L rows zipcode_to_locations
      else case record_places r of
             Inl e \<Rightarrow> Inl e
           | Inr ps \<Rightarrow>
               build_loop L rows
                 (foldl (\<lambda>m p. setdefault_append c p m) zipcode_to_locations ps))"

definition fetch_and_build_mapping ::
  "pylib \<Rightarrow> 'i::linorder raw_record list \<Rightarrow> py_error + zip_mapping" where
  "fetch_and_build_mapping L rows = build_loop L rows []"

section \<open>The flattened records and the distinct-value lists\<close>

record zrecord = place +
  code :: pystr
  province_n :: pystr
  amphoe_n :: pystr
  district_n :: pystr

definition mk_record :: "pylib \<Rightarrow> pystr \<Rightarrow> place \<Rightarrow> zrecord" where
  "mk_record L c loc =
     \<lparr>province = province loc, amphoe = amphoe loc, district = district loc,
      code = c,
      province_n = normalize_text L (province loc),
      amphoe_n = normalize_text L (Some (amphoe loc)),
      district_n = normalize_text L (Some (district loc))\<rparr>"

definition RECORDS :: "pylib \<Rightarrow> zip_mapping \<Rightarrow> zrecord list" where
  "RECORDS L m = concat (map (\<lambda>(c, locs). map (mk_record L c) locs) m)"

definition UNIQUE_PROVINCES :: "zrecord list \<Rightarrow> pystr list" where
  "UNIQUE_PROVINCES rs =
     sort (remdups (concat (map (\<lambda>r. case province r of
                                        None \<Rightarrow> []
                                      | Some p \<Rightarrow> if p = [] then [] else [p]) rs)))"

definition UNIQUE_AMPHOES :: "zrecord list \<Rightarrow> pystr list" where
  "UNIQUE_AMPHOES rs = sort (remdups (filter (\<lambda>a. a \<noteq> []) (map amphoe rs)))"

definition UNIQUE_DISTRICTS :: "zrecord list \<Rightarrow> pystr list" where
  "UNIQUE_DISTRICTS rs = sort (remdups (filter (\<lambda>d. d \<noteq> []) (map district rs)))"

definition UNIQUE_ZIPCODES :: "zip_mapping \<Rightarrow> pystr list" where
  "UNIQUE_ZIPCODES m = sort (map fst m)"

section \<open>Requests and responses\<close>

text \<open>
  \<open>request.args\<close> and \<open>request.values\<close>: the first value of each parameter that the
  request carries.  A response body is a JSON value; a handler of the API returns the
  body and the status.
\<close>

type_synonym params = "string \<Rightarrow> pystr option"

datatype json = JNull | JStr pystr | JInt int | JList "json list" | JDict "(string \<times> json) list"

text \<open>\<open>args.get(key, default)\<close>\<close>

definition args_get :: "params \<Rightarrow> string \<Rightarrow> pystr \<Rightarrow> pystr" where
  "args_get a k d = (case a k of None \<Rightarrow> d | Some v \<Rightarrow> v)"

text \<open>
  \<open>int(args.get(key, default))\<close> for an integer default: the default itself when the
  parameter is absent, \<open>None\<close> when \<open>int\<close> raises \<open>ValueError\<close>.
\<close>

definition int_arg :: "pylib \<Rightarrow> params \<Rightarrow> string \<Rightarrow> int \<Rightarrow> int option" where
  "int_arg L a k d = (case a k of None \<Rightarrow> Some d | Some v \<Rightarrow> int_of_str L v)"

definition truthy_flag :: "pylib \<Rightarrow> pystr \<Rightarrow> bool" where
  "truthy_flag L v \<longleftrightarrow>
     str_lower L v \<in> set [lit ''1'', lit ''true'', lit ''yes'', lit ''y'']"

definition json_opt :: "pystr option \<Rightarrow> json" where
  "json_opt v = (case v of None \<Rightarrow> JNull | Some s \<Rightarrow> JStr s)"

definition json_place :: "'a place_scheme \<Rightarrow> json" where
  "json_place r =
     JDict [(''province'', json_opt (province r)), (''amphoe'', JStr (amphoe r)),
            (''district'', JStr (district r))]"

definition json_row :: "zrecord \<Rightarrow> json" where
  "json_row r =
     JDict [(''code'', JStr (code r)), (''province'', json_opt (province r)),
            (''amphoe'', JStr (amphoe r)), (''district'', JStr (district r))]"

section \<open>\<open>GET /api/zipcode/<code>\<close>\<close>

definition ZipcodeLookup_get :: "pylib \<Rightarrow> zip_mapping \<Rightarrow> pystr \<Rightarrow> json \<times> nat" where
  "ZipcodeLookup_get L ZIPCODE_TO_LOCATIONS code_arg =
     (let code_clean = strip code_arg in
      if \<not> isdigit L code_clean \<or> length code_clean \<noteq> 5
      then (JDict [(''error'', JStr (lit ''Invalid zipcode. Must be 5 digits.''))], 400)
      else
        let locations =
              (case map_of ZIPCODE_TO_LOCATIONS code_clean of None \<Rightarrow> [] | Some l \<Rightarrow> l)
        in if locations = []
           then (JDict [(''error'', JStr (lit ''Zipcode not found in dataset.'')),
                        (''code'', JStr code_clean)], 404)
           else (JDict [(''code'', JStr code_clean),
                        (''locations'', JList (map json_place locations))], 200))"

section \<open>\<open>GET /api/search\<close>\<close>

definition search_limit :: "pylib \<Rightarrow> params \<Rightarrow> int" where
  "search_limit L a =
     (case int_arg L a ''limit'' 50 of Some v \<Rightarrow> max 1 (min 200 v) | None \<Rightarrow> 50)"

definition search_offset :: "pylib \<Rightarrow> params \<Rightarrow> int" where
  "search_offset L a =
     (case int_arg L a ''offset'' 0 of Some v \<Rightarrow> max 0 v | None \<Rightarrow> 0)"

text \<open>One pass of the loop over \<open>RECORDS\<close>: \<open>results\<close> before and after the record.\<close>

definition search_step ::
  "pylib \<Rightarrow> pystr \<Rightarrow> pystr \<Rightarrow> pystr \<Rightarrow> pystr \<Rightarrow> pystr \<Rightarrow> bool \<Rightarrow>
   json list \<Rightarrow> zrecord \<Rightarrow> json list" where
  "search_step L code_q province_arg amphoe_arg district_arg q fuzzy results r =
     (if code_q \<noteq> [] \<and> \<not> startswith (code r) code_q then results
      else if province_arg \<noteq> [] \<and> \<not> is_match L (province r) province_arg fuzzy then results
      else if amphoe_arg \<noteq> [] \<and> \<not> is_match L (Some (amphoe r)) amphoe_arg fuzzy then results
      else if district_arg \<noteq> [] \<and> \<not> is_match L (Some (district r)) district_arg fuzzy
        then results
      else if q \<noteq> [] \<and>
              \<not> (is_match L (province r) q fuzzy \<or> is_match L (Some (amphoe r)) q fuzzy \<or>
                 is_match L (Some (district r)) q fuzzy \<or> startswith (code r) q)
        then results
      else results @ [json_row r])"

text \<open>\<open>xs[offset : offset + limit]\<close> for \<open>offset \<ge> 0\<close>.\<close>

definition slice :: "int \<Rightarrow> int \<Rightarrow> 'a list \<Rightarrow> 'a list" where
  "slice offset limit xs = take (nat (offset + limit) - nat offset) (drop (nat offset) xs)"

definition ForwardSearch_get :: "pylib \<Rightarrow> zrecord list \<Rightarrow> params \<Rightarrow> json \<times> nat" where
  "ForwardSearch_get L records a =
     (let code_arg = args_get a ''code'' [];
          province_arg = args_get a ''province'' [];
          amphoe_arg = args_get a ''amphoe'' [];
          district_arg = args_get a ''district'' [];
          q = args_get a ''q'' [];
          fuzzy = truthy_flag L (args_get a ''fuzzy'' (lit ''false''));
          limit = search_limit L a;
          offset = search_offset L a;
          code_q = strip code_arg;
          results =
            foldl (search_step L code_q province_arg amphoe_arg district_arg q fuzzy) []
              records;
          total = length results;
          paged = slice offset limit results
      in (JDict [(''total'', JInt (int total)), (''limit'', JInt limit),
                 (''offset'', JInt offset), (''results'', JList paged)], 200))"

section \<open>\<open>GET /api/reverse\<close>\<close>

definition reverse_step ::
  "pylib \<Rightarrow> pystr \<Rightarrow> pystr \<Rightarrow> pystr \<Rightarrow> bool \<Rightarrow>
   (pystr \<times> json list) list \<Rightarrow> zrecord \<Rightarrow> (pystr \<times> json list) list" where
  "reverse_step L province_arg amphoe_arg district_arg fuzzy grouped r =
     (if province_arg \<noteq> [] \<and> \<not> is_match L (province r) province_arg fuzzy then grouped
      else if amphoe_arg \<noteq> [] \<and> \<not> is_match L (Some (amphoe r)) amphoe_arg fuzzy then grouped
      else if district_arg \<noteq> [] \<and> \<not> is_match L (Some (district r)) district_arg fuzzy
        then grouped
      else setdefault_append (code r) (json_place r) grouped)"

text \<open>
  \<open>sorted(grouped.items())\<close>: the keys of a dictionary are distinct, so the comparison
  of two items is decided by their codes.
\<close>

definition sorted_items :: "('k::linorder \<times> 'v) list \<Rightarrow> ('k \<times> 'v) list" where
  "sorted_items d = sort_key fst d"

definition ReverseLookup_get :: "pylib \<Rightarrow> zrecord list \<Rightarrow> params \<Rightarrow> json \<times> nat" where
  "ReverseLookup_get L records a =
     (let province_arg = args_get a ''province'' [];
          amphoe_arg = args_get a ''amphoe'' [];
          district_arg = args_get a ''district'' [];
          fuzzy = truthy_flag L (args_get a ''fuzzy'' (lit ''false''));
          grouped = foldl (reverse_step L province_arg amphoe_arg district_arg fuzzy) [] records
      in if grouped = [] then (JDict [(''error'', JStr (lit ''No results found.''))], 404)
         else
           let results =
                 map (\<lambda>(c, locs). JDict [(''code'', JStr c), (''locations'', JList locs)])
                   (sorted_items grouped)
           in (JDict [(''results'', JList results)], 200))"

section \<open>\<open>GET /api/suggest\<close>\<close>

definition suggest_limit :: "pylib \<Rightarrow> params \<Rightarrow> int" where
  "suggest_limit L a =
     (case int_arg L a ''limit'' 10 of Some v \<Rightarrow> max 1 (min 20 v) | None \<Rightarrow> 10)"

text \<open>The loop of \<open>filter_values\<close>, with \<open>picks\<close> as it stands before the next value.\<close>

fun filter_values :: "pylib \<Rightarrow> pystr \<Rightarrow> int \<Rightarrow> pystr list \<Rightarrow> pystr list \<Rightarrow> pystr list" where
  "filter_values L qn limit [] picks = picks"
| "filter_values L qn limit (v # vs) picks =
     (let picks' = (if contains (normalize_text L (Some v)) qn then picks @ [v] else picks)
      in if limit \<le> int (length picks') then picks'
         else filter_values L qn limit vs picks')"

record app =
  unique_zipcodes :: "pystr list"
  unique_provinces :: "pystr list"
  unique_amphoes :: "pystr list"
  unique_districts :: "pystr list"

definition json_strs :: "pystr list \<Rightarrow> json" where
  "json_strs xs = JList (map JStr xs)"

definition Suggest_get :: "pylib \<Rightarrow> app \<Rightarrow> params \<Rightarrow> json \<times> nat" where
  "Suggest_get L g a =
     (let q = args_get a ''q'' [];
          limit = suggest_limit L a;
          qn = normalize_text L (Some q)
      in if qn = []
         then (JDict [(''zipcodes'', json_strs (take (nat limit) (unique_zipcodes g))),
                      (''provinces'', json_strs (take (nat limit) (unique_provinces g))),
                      (''amphoes'', json_strs (take (nat limit) (unique_amphoes g))),
                      (''districts'', json_strs (take (nat limit) (unique_districts g)))], 200)
         else
           let zip_sug = take (nat limit) (filter (\<lambda>z. startswith z qn) (unique_zipcodes g));
               prov_sug = filter_values L qn limit (unique_provinces g) [];
               amph_sug = filter_values L qn limit (unique_amphoes g) [];
               dist_sug = filter_values L qn limit (unique_districts g) []
           in (JDict [(''zipcodes'', json_strs zip_sug), (''provinces'', json_strs prov_sug),
                      (''amphoes'', json_strs amph_sug), (''districts'', json_strs dist_sug)],
               200))"

text \<open>The four lists as the module computes them from the mapping at start-up.\<close>

definition load_app :: "pylib \<Rightarrow> zip_mapping \<Rightarrow> app" where
  "load_app L m =
     \<lparr>unique_zipcodes = UNIQUE_ZIPCODES m,
      unique_provinces = UNIQUE_PROVINCES (RECORDS L m),
      unique_amphoes = UNIQUE_AMPHOES (RECORDS L m),
      unique_districts = UNIQUE_DISTRICTS (RECORDS L m)\<rparr>"

section \<open>\<open>/ui/search\<close>\<close>

text \<open>The context that the handler passes to the template.\<close>

record search_page =
  page_params :: "(string \<times> pystr) list"
  page_total :: nat
  page_results :: "json list option"

definition ui_search_step ::
  "pylib \<Rightarrow> pystr \<Rightarrow> pystr \<Rightarrow> pystr \<Rightarrow> pystr \<Rightarrow> pystr \<Rightarrow> bool \<Rightarrow>
   json list \<Rightarrow> zrecord \<Rightarrow> json list" where
  "ui_search_step L code_q p_province p_amphoe p_district p_q fuzzy rows r =
     (if code_q \<noteq> [] \<and> \<not> startswith (code r) code_q then rows
      else if p_province \<noteq> [] \<and> \<not> is_match L (province r) p_province fuzzy then rows
      else if p_amphoe \<noteq> [] \<and> \<not> is_match L (Some (amphoe r)) p_amphoe fuzzy then rows
      else if p_district \<noteq> [] \<and> \<not> is_match L (Some (district r)) p_district fuzzy then rows
      else if p_q \<noteq> [] \<and>
              \<not> (is_match L (province r) p_q fuzzy \<or> is_match L (Some (amphoe r)) p_q fuzzy \<or>
                 is_match L (Some (district r)) p_q fuzzy \<or> startswith (code r) p_q)
        then rows
      else rows @ [json_row r])"

definition ui_search :: "pylib \<Rightarrow> zrecord list \<Rightarrow> params \<Rightarrow> search_page" where
  "ui_search L records vals =
     (let ps = [(''q'', args_get vals ''q'' []),
                (''code'', args_get vals ''code'' []),
                (''province'', args_get vals ''province'' []),
                (''amphoe'', args_get vals ''amphoe'' []),
                (''district'', args_get vals ''district'' []),
                (''fuzzy'', args_get vals ''fuzzy'' (lit ''false''))];
          p = (\<lambda>k. case map_of ps k of None \<Rightarrow> [] | Some v \<Rightarrow> v)
      in if list_ex (\<lambda>v. v \<noteq> []) (map snd ps)
         then
           let fuzzy = truthy_flag L (p ''fuzzy'');
               code_q = strip (p ''code'');
               rows = foldl (ui_search_step L code_q (p ''province'') (p ''amphoe'')
                              (p ''district'') (p ''q'') fuzzy) [] records
           in \<lparr>page_params = ps, page_total = length rows, page_results = Some (take 100 rows)\<rparr>
         else \<lparr>page_params = ps, page_total = 0, page_results = None\<rparr>)"

section \<open>A library instance for concrete evaluation\<close>

text \<open>
  The theorems below hold for every value of the library parameters.  Concrete
  examples are evaluated with the following instance, which agrees with CPython on the
  inputs the examples use: \<open>str.isdigit\<close> on the ASCII digits, the superscript digits of
  Latin-1 and the Arabic-Indic digits, \<open>str.lower\<close> on text whose cased characters are
  ASCII, \<open>int\<close> on ASCII text without underscores, and \<open>difflib\<close>'s ratio on sequences
  of fewer than 200 elements (where its popularity heuristic is off): the longest
  common block, leftmost in \<open>a\<close> and then in \<open>b\<close>, splits both sequences, and the parts
  to its left and to its right are matched in the same way.
\<close>

definition sample_isdigit :: "nat \<Rightarrow> bool" where
  "sample_isdigit c \<longleftrightarrow>
     (0x30 \<le> c \<and> c \<le> 0x39) \<or> c = 0xB2 \<or> c = 0xB3 \<or> c = 0xB9 \<or> (0x660 \<le> c \<and> c \<le> 0x669)"

definition ascii_lower :: "nat \<Rightarrow> nat" where
  "ascii_lower c = (if 0x41 \<le> c \<and> c \<le> 0x5A then c + 0x20 else c)"

fun digits_value :: "pystr \<Rightarrow> nat \<Rightarrow> nat option" where
  "digits_value [] acc = Some acc"
| "digits_value (c # cs) acc =
     (if 0x30 \<le> c \<and> c \<le> 0x39 then digits_value cs (10 * acc + (c - 0x30)) else None)"

definition sample_int :: "pystr \<Rightarrow> int option" where
  "sample_int s =
     (case strip s of
        [] \<Rightarrow> None
      | c # cs \<Rightarrow>
          if c = 0x2D then (if cs = [] then None else map_option (\<lambda>n. - int n) (digits_value cs 0))
          else if c = 0x2B then (if cs = [] then None else map_option int (digits_value cs 0))
          else map_option int (digits_value (c # cs) 0))"

fun common_prefix_length :: "pystr \<Rightarrow> pystr \<Rightarrow> nat" where
  "common_prefix_length (x # xs) (y # ys) =
     (if x = y then Suc (common_prefix_length xs ys) else 0)"
| "common_prefix_length _ _ = 0"

definition find_longest_match :: "pystr \<Rightarrow> pystr \<Rightarrow> nat \<times> nat \<times> nat" where
  "find_longest_match a b =
     foldl (\<lambda>(besti, bestj, bestsize) (i, j).
              let k = common_prefix_length (drop i a) (drop j b)
              in if bestsize < k then (i, j, k) else (besti, bestj, bestsize))
       (0, 0, 0)
       (concat (map (\<lambda>i. map (\<lambda>j. (i, j)) [0..<length b]) [0..<length a]))"

fun matching_total :: "nat \<Rightarrow> pystr \<Rightarrow> pystr \<Rightarrow> nat" where
  "matching_total 0 a b = 0"
| "matching_total (Suc fuel) a b =
     (case find_longest_match a b of
        (i, j, k) \<Rightarrow>
          if k = 0 then 0
          else k + matching_total fuel (take i a) (take j b) +
               matching_total fuel (drop (i + k) a) (drop (j + k) b))"

definition sample_ratio :: "pystr \<Rightarrow> pystr \<Rightarrow> real" where
  "sample_ratio a b =
     (if length a + length b = 0 then 1
      else 2 * real (matching_total (length a + length b) a b) / real (length a + length b))"

definition sample_lib :: pylib where
  "sample_lib =
     \<lparr>ch_isdigit = sample_isdigit, str_lower = map ascii_lower, int_of_str = sample_int,
      seq_ratio = sample_ratio\<rparr>"

section \<open>Vocabulary of the specification\<close>

text \<open>
  What the proof of idempotence needs of \<open>str.lower\<close>: lowering an already lowered
  string changes nothing, and lowering neither touches nor creates whitespace, so that
  it commutes with trimming and with collapsing whitespace.
\<close>

definition lower_laws :: "pylib \<Rightarrow> bool" where
  "lower_laws L \<longleftrightarrow>
     (\<forall>s. str_lower L (str_lower L s) = str_lower L s) \<and>
     (\<forall>s. str_lower L (strip s) = strip (str_lower L s)) \<and>
     (\<forall>s. str_lower L (sub_ws s) = sub_ws (str_lower L s))"

text \<open>A string without leading or trailing whitespace.\<close>

definition stripped :: "pystr \<Rightarrow> bool" where
  "stripped s \<longleftrightarrow> s = [] \<or> (\<not> isspace (hd s) \<and> \<not> isspace (last s))"

text \<open>
  The filters of \<open>/api/search\<close> in the words of the specification: every supplied
  (non-empty) filter must hold; \<open>code_f\<close> is the \<open>code\<close> parameter after trimming.
\<close>

definition search_match ::
  "pylib \<Rightarrow> pystr \<Rightarrow> pystr \<Rightarrow> pystr \<Rightarrow> pystr \<Rightarrow> pystr \<Rightarrow> bool \<Rightarrow> zrecord \<Rightarrow> bool" where
  "search_match L code_f province_f amphoe_f district_f q fuzzy r \<longleftrightarrow>
     (code_f \<noteq> [] \<longrightarrow> prefix code_f (code r)) \<and>
     (province_f \<noteq> [] \<longrightarrow> is_match L (province r) province_f fuzzy) \<and>
     (amphoe_f \<noteq> [] \<longrightarrow> is_match L (Some (amphoe r)) amphoe_f fuzzy) \<and>
     (district_f \<noteq> [] \<longrightarrow> is_match L (Some (district r)) district_f fuzzy) \<and>
     (q \<noteq> [] \<longrightarrow>
        is_match L (province r) q fuzzy \<or> is_match L (Some (amphoe r)) q fuzzy \<or>
        is_match L (Some (district r)) q fuzzy \<or> prefix q (code r))"

text \<open>The filters of \<open>/api/reverse\<close>.\<close>

definition reverse_match :: "pylib \<Rightarrow> pystr \<Rightarrow> pystr \<Rightarrow> pystr \<Rightarrow> bool \<Rightarrow> zrecord \<Rightarrow> bool" where
  "reverse_match L province_f amphoe_f district_f fuzzy r \<longleftrightarrow>
     (province_f \<noteq> [] \<longrightarrow> is_match L (province r) province_f fuzzy) \<and>
     (amphoe_f \<noteq> [] \<longrightarrow> is_match L (Some (amphoe r)) amphoe_f fuzzy) \<and>
     (district_f \<noteq> [] \<longrightarrow> is_match L (Some (district r)) district_f fuzzy)"

text \<open>The triple that orders the places of one postal code.\<close>

definition place_key :: "place \<Rightarrow> pystr option \<times> pystr \<times> pystr" where
  "place_key p = (province p, amphoe p, district p)"

text \<open>Reading a response body: \<open>body[key]\<close> and \<open>len\<close> of a JSON list.\<close>

definition json_field :: "string \<Rightarrow> json \<Rightarrow> json" where
  "json_field k j =
     (case j of JDict kvs \<Rightarrow> (case map_of kvs k of None \<Rightarrow> JNull | Some v \<Rightarrow> v) | _ \<Rightarrow> JNull)"

definition json_len :: "json \<Rightarrow> nat" where
  "json_len j = (case j of JList xs \<Rightarrow> length xs | _ \<Rightarrow> 0)"

text \<open>\<open>d.get(k, [])\<close> for a dictionary of lists.\<close>

definition values_of :: "('k \<times> 'v list) list \<Rightarrow> 'k \<Rightarrow> 'v list" where
  "values_of d k = (case map_of d k of None \<Rightarrow> [] | Some vs \<Rightarrow> vs)"

text \<open>
  What a row contributes to the entry of its code: nothing when its code is not valid,
  the sorted distinct places of the row otherwise.
\<close>

definition row_block :: "pylib \<Rightarrow> 'i::linorder raw_record \<Rightarrow> place list" where
  "row_block L r =
     (if valid_code L (record_code r)
      then (case record_places r of Inl e \<Rightarrow> [] | Inr ps \<Rightarrow> ps)
      else [])"

definition good_places :: "place list \<Rightarrow> bool" where
  "good_places ps \<longleftrightarrow> list_all (\<lambda>p. amphoe p \<noteq> [] \<and> district p \<noteq> []) ps"

definition nonempty_values :: "('k \<times> 'v list) list \<Rightarrow> bool" where
  "nonempty_values d \<longleftrightarrow> list_all (\<lambda>kv. snd kv \<noteq> []) d"

section \<open>A sample dataset\<close>

text \<open>
  Three rows: two subdistricts of Khlong Toei and one of Watthana under 10110 (one
  subdistrict listed twice, one without a name, one whose district is not listed), a
  row whose code is not numeric, and a row whose code is a number.
\<close>

definition sample_rows :: "nat raw_record list" where
  "sample_rows =
     [\<lparr>zipCode = ZStr (lit ''10110''),
       districtList = [(Some 1, Some (lit ''Khlong Toei'')), (Some 2, Some (lit ''Watthana''))],
       provinceList = [(Some 10, Some (lit ''Bangkok''))],
       subDistrictList =
         [(Some (lit ''Phra Khanong''), Some 1), (Some (lit ''Khlong Tan''), Some 1),
          (Some (lit ''Khlong Toei Nuea''), Some 2), (Some (lit ''Khlong Tan''), Some 1),
          (None, Some 1), (Some (lit ''Bang Chak''), Some 3)]\<rparr>,
      \<lparr>zipCode = ZStr (lit ''1a2b3''),
       districtList = [(Some 1, Some (lit ''Nowhere''))],
       provinceList = [(Some 10, Some (lit ''Bangkok''))],
       subDistrictList = [(Some (lit ''Nowhere''), Some 1)]\<rparr>,
      \<lparr>zipCode = ZInt 50200,
       districtList = [(Some 1, Some (lit ''Mueang Chiang Mai''))],
       provinceList = [(Some 38, Some (lit ''Chiang Mai''))],
       subDistrictList =
         [(Some (lit ''Si Phum''), Some 1), (Some (lit ''Phra Sing''), Some 1)]\<rparr>]"

definition sample_place :: "string \<Rightarrow> string \<Rightarrow> string \<Rightarrow> place" where
  "sample_place p a d = \<lparr>province = Some (lit p), amphoe = lit a, district = lit d\<rparr>"

definition sample_mapping :: zip_mapping where
  "sample_mapping =
     [(lit ''10110'',
       [sample_place ''Bangkok'' ''Khlong Toei'' ''Khlong Tan'',
        sample_place ''Bangkok'' ''Khlong Toei'' ''Phra Khanong'',
        sample_place ''Bangkok'' ''Watthana'' ''Khlong Toei Nuea'']),
      (lit ''50200'',
       [sample_place ''Chiang Mai'' ''Mueang Chiang Mai'' ''Phra Sing'',
        sample_place ''Chiang Mai'' ''Mueang Chiang Mai'' ''Si Phum''])]"

text \<open>Two rows that carry the same postal code.\<close>

definition shared_code_rows :: "nat raw_record list" where
  "shared_code_rows =
     [\<lparr>zipCode = ZStr (lit ''10110''),
       districtList = [(Some 1, Some (lit ''Khlong Toei''))],
       provinceList = [(Some 10, Some (lit ''Bangkok''))],
       subDistrictList = [(Some (lit ''Phra Khanong''), Some 1)]\<rparr>,
      \<lparr>zipCode = ZStr (lit ''10110''),
       districtList = [(Some 1, Some (lit ''Khlong Toei''))],
       provinceList = [(Some 10, Some (lit ''Bangkok''))],
       subDistrictList =
         [(Some (lit ''Phra Khanong''), Some 1), (Some (lit ''Khlong Tan''), Some 1)]\<rparr>]"

definition sample_records :: "zrecord list" where
  "sample_records = RECORDS sample_lib sample_mapping"

text \<open>One record for each of the 101 postal codes 10000, ..., 10100.\<close>

definition many_codes :: "pystr list" where
  "many_codes =
     map (\<lambda>i. [0x31, 0x30, 0x30 + i div 100, 0x30 + i div 10 mod 10, 0x30 + i mod 10])
       [0..<101]"

definition many_records :: "zrecord list" where
  "many_records =
     RECORDS sample_lib
       (map (\<lambda>c. (c, [sample_place ''Bangkok'' ''Khlong Toei'' ''Khlong Tan''])) many_codes)"

text \<open>Exactly five ASCII digits.\<close>

definition ascii_digits5 :: "pystr \<Rightarrow> bool" where
  "ascii_digits5 s \<longleftrightarrow> length s = 5 \<and> list_all (\<lambda>c. 0x30 \<le> c \<and> c \<le> 0x39) s"

definition sample_app :: app where
  "sample_app = load_app sample_lib sample_mapping"


section \<open>Whitespace: trimming and collapsing\<close>

lemma isspace_space: "isspace 0x20" by (simp add: isspace_def)

lemma sub_ws_dropWhile_fix:
  "s = [] \<or> \<not> isspace (hd s) \<Longrightarrow> dropWhile isspace (sub_ws s) = sub_ws s"
  by (cases s) auto

lemma dropWhile_head: "dropWhile P xs = [] \<or> \<not> P (hd (dropWhile P xs))"
  using hd_dropWhile[of P xs] by blast

lemma sub_ws_idem: "sub_ws (sub_ws s) = sub_ws s"
proof (induction s rule: sub_ws.induct)
  case 1
  show ?case by simp
next
  case (2 c cs)
  show ?case
  proof (cases "isspace c")
    case True
    have "dropWhile isspace (sub_ws (dropWhile isspace cs)) = sub_ws (dropWhile isspace cs)"
      by (rule sub_ws_dropWhile_fix) (rule dropWhile_head)
    with True 2 show ?thesis by (simp add: isspace_space)
  next
    case False
    with 2 show ?thesis by simp
  qed
qed

lemma strip_stripped: "stripped s \<Longrightarrow> strip s = s"
proof (cases "s = []")
  case True
  then show ?thesis by (simp add: strip_def)
next
  case False
  assume "stripped s"
  with False have h: "\<not> isspace (hd s)" and l: "\<not> isspace (last s)"
    by (auto simp: stripped_def)
  from False h have 1: "dropWhile isspace s = s"
    by (cases s) auto
  from False l have 2: "dropWhile isspace (rev s) = rev s"
    by (cases "rev s") (auto simp: hd_rev[symmetric])
  show ?thesis by (simp add: strip_def 1 2)
qed

lemma stripped_strip: "stripped (strip s)"
proof -
  define t where "t = dropWhile isspace s"
  define u where "u = dropWhile isspace (rev t)"
  have eq: "strip s = rev u" by (simp add: strip_def t_def u_def)
  show ?thesis
  proof (cases "u = []")
    case True
    with eq show ?thesis by (simp add: stripped_def)
  next
    case False
    then have hu: "\<not> isspace (hd u)" unfolding u_def by (rule hd_dropWhile)
    from False have t: "t \<noteq> []" by (auto simp: u_def)
    then have ht: "\<not> isspace (hd t)" unfolding t_def by (rule hd_dropWhile)
    have "last (takeWhile isspace (rev t) @ u) = last u"
      using False by (rule last_appendR)
    then have "last u = last (rev t)" by (simp add: u_def)
    also have "\<dots> = hd t" using t by (simp add: last_rev)
    finally have lu: "\<not> isspace (last u)" using ht by simp
    from False hu lu show ?thesis
      by (simp add: eq stripped_def hd_rev last_rev)
  qed
qed

lemma strip_idem: "strip (strip s) = strip s"
  by (simp add: strip_stripped stripped_strip)

lemma sub_ws_Nil_iff: "sub_ws s = [] \<longleftrightarrow> s = []"
  by (cases s) auto

lemma last_sub_ws: "s \<noteq> [] \<Longrightarrow> \<not> isspace (last s) \<Longrightarrow> \<not> isspace (last (sub_ws s))"
proof (induction s rule: sub_ws.induct)
  case 1 then show ?case by simp
next
  case (2 c cs)
  show ?case
  proof (cases "isspace c")
    case True
    from 2(4) True have cs: "cs \<noteq> []" by auto
    with 2(4) have lcs: "\<not> isspace (last cs)" by simp
    from cs have "last cs \<in> set cs" by simp
    with lcs have ne: "dropWhile isspace cs \<noteq> []"
      by (auto simp: dropWhile_eq_Nil_conv)
    have "last (takeWhile isspace cs @ dropWhile isspace cs) = last (dropWhile isspace cs)"
      using ne by (rule last_appendR)
    then have "last (dropWhile isspace cs) = last cs" by simp
    with lcs ne 2(1)[OF True] have "\<not> isspace (last (sub_ws (dropWhile isspace cs)))"
      by simp
    moreover note ne
    ultimately show ?thesis using True by (auto simp: sub_ws_Nil_iff)
  next
    case False
    with 2 show ?thesis by (cases cs) (auto simp: sub_ws_Nil_iff)
  qed
qed

lemma stripped_sub_ws: "stripped s \<Longrightarrow> stripped (sub_ws s)"
proof (cases "s = []")
  case True
  then show ?thesis by (simp add: stripped_def)
next
  case False
  assume "stripped s"
  with False have h: "\<not> isspace (hd s)" and l: "\<not> isspace (last s)"
    by (auto simp: stripped_def)
  from False h have "hd (sub_ws s) = hd s" by (cases s) auto
  with h last_sub_ws[OF False l] show ?thesis by (simp add: stripped_def)
qed

section \<open>Normalization\<close>

lemma isspace_ascii_lower: "isspace (ascii_lower c) = isspace c"
  by (auto simp: isspace_def ascii_lower_def)

lemma ascii_lower_idem: "ascii_lower (ascii_lower c) = ascii_lower c"
  by (auto simp: ascii_lower_def)

lemma ascii_lower_space: "ascii_lower 32 = 32"
  by (simp add: ascii_lower_def)

lemma dropWhile_isspace_lower:
  "dropWhile isspace (map ascii_lower s) = map ascii_lower (dropWhile isspace s)"
  by (induction s) (auto simp: isspace_ascii_lower)

lemma strip_map_lower: "strip (map ascii_lower s) = map ascii_lower (strip s)"
  by (simp add: strip_def dropWhile_isspace_lower rev_map)

lemma sub_ws_map_lower: "sub_ws (map ascii_lower s) = map ascii_lower (sub_ws s)"
  by (induction s rule: sub_ws.induct)
     (simp_all add: isspace_ascii_lower dropWhile_isspace_lower ascii_lower_space)

lemma sample_lower_laws: "lower_laws sample_lib"
  by (simp add: lower_laws_def sample_lib_def strip_map_lower sub_ws_map_lower ascii_lower_idem)

text \<open>
  Claim C9.  \<open>normalize_text\<close> is idempotent on every string, and the normal form of an
  absent value is the empty string.  The function is total: it is a HOL function
  without an error result, as the source has no raising path.  Idempotence rests on
  \<open>str.lower\<close> being idempotent and leaving whitespace alone (\<open>lower_laws\<close>).
\<close>

theorem normalize_text_idempotent:
  assumes "lower_laws L"
  shows "normalize_text L (Some (normalize_text L (Some x))) = normalize_text L (Some x) \<and>
         normalize_text L None = []"
proof -
  from assms have idem: "\<And>s. str_lower L (str_lower L s) = str_lower L s"
    and st: "\<And>s. str_lower L (strip s) = strip (str_lower L s)"
    and sw: "\<And>s. str_lower L (sub_ws s) = sub_ws (str_lower L s)"
    by (simp_all add: lower_laws_def)
  define y where "y = str_lower L (strip x)"
  have "stripped y" unfolding y_def st by (rule stripped_strip)
  then have "stripped (sub_ws y)" by (rule stripped_sub_ws)
  then have 1: "strip (sub_ws y) = sub_ws y" by (rule strip_stripped)
  have 2: "str_lower L (sub_ws y) = sub_ws y" by (simp add: sw y_def idem)
  have "normalize_text L (Some (sub_ws y)) = sub_ws y"
    by (simp add: normalize_text_def 1 2 sub_ws_idem)
  then show ?thesis by (simp add: normalize_text_def y_def)
qed

theorem normalize_text_idempotent_witness:
  "lower_laws sample_lib \<and>
   normalize_text sample_lib (Some (lit ''  Chiang    Mai '')) = lit ''chiang mai'' \<and>
   normalize_text sample_lib (Some (lit ''chiang mai'')) = lit ''chiang mai''"
proof -
  have n: "normalize_text sample_lib (Some (lit ''  Chiang    Mai '')) = lit ''chiang mai''"
    by (simp add: normalize_text_def sample_lib_def lit_def strip_def isspace_def ascii_lower_def)
  from normalize_text_idempotent[OF sample_lower_laws, of "lit ''  Chiang    Mai ''"] n
  show ?thesis by (simp add: sample_lower_laws)
qed

section \<open>Matching\<close>

lemmas sample_norm_simps =
  normalize_text_def sample_lib_def lit_def strip_def isspace_def ascii_lower_def

text \<open>
  Claim C6.  \<open>is_match\<close> holds when the normalized query is empty; otherwise it holds
  when the normalized query is a contiguous part (\<open>sublist\<close>) of the normalized
  candidate, whatever \<open>fuzzy\<close> is; otherwise it fails without \<open>fuzzy\<close>, and with
  \<open>fuzzy\<close> it holds exactly when the similarity ratio of the normalized candidate and
  the normalized query is at least 0.75.
\<close>

theorem is_match_cases:
  "(normalize_text L (Some q) = [] \<longrightarrow> is_match L c q fuzzy) \<and>
   (normalize_text L (Some q) \<noteq> [] \<and> sublist (normalize_text L (Some q)) (normalize_text L c)
      \<longrightarrow> is_match L c q fuzzy) \<and>
   (normalize_text L (Some q) \<noteq> [] \<and> \<not> sublist (normalize_text L (Some q)) (normalize_text L c)
      \<and> \<not> fuzzy \<longrightarrow> \<not> is_match L c q fuzzy) \<and>
   (normalize_text L (Some q) \<noteq> [] \<and> \<not> sublist (normalize_text L (Some q)) (normalize_text L c)
      \<and> fuzzy \<longrightarrow>
      (is_match L c q fuzzy \<longleftrightarrow>
         0.75 \<le> seq_ratio L (normalize_text L c) (normalize_text L (Some q))))"
  by (simp add: is_match_def contains_def Let_def)

theorem is_match_cases_witness:
  "is_match sample_lib (Some (lit ''Bangkok'')) (lit ''  '') False \<and>
   is_match sample_lib (Some (lit ''Chiang Mai'')) (lit ''chiang'') False \<and>
   \<not> is_match sample_lib (Some (lit ''Chiang Mai'')) (lit ''chiangg'') False \<and>
   \<not> is_match sample_lib (Some (lit ''Chiang Mai'')) (lit ''chiangg'') True \<and>
   is_match sample_lib (Some (lit ''Bangkok'')) (lit ''bangkokk'') True"
proof -
  have e: "normalize_text sample_lib (Some (lit ''  '')) = []"
    by (simp add: sample_norm_simps)
  have c: "normalize_text sample_lib (Some (lit ''Chiang Mai'')) = lit ''chiang mai''"
    by (simp add: sample_norm_simps)
  have q1: "normalize_text sample_lib (Some (lit ''chiang'')) = lit ''chiang''"
    by (simp add: sample_norm_simps)
  have q2: "normalize_text sample_lib (Some (lit ''chiangg'')) = lit ''chiangg''"
    by (simp add: sample_norm_simps)
  have b: "normalize_text sample_lib (Some (lit ''Bangkok'')) = lit ''bangkok''"
    by (simp add: sample_norm_simps)
  have q3: "normalize_text sample_lib (Some (lit ''bangkokk'')) = lit ''bangkokk''"
    by (simp add: sample_norm_simps)
  have s1: "sublist (lit ''chiang'') (lit ''chiang mai'')"
    by (simp add: lit_def sublist_code)
  have s2: "\<not> sublist (lit ''chiangg'') (lit ''chiang mai'')"
    by (simp add: lit_def sublist_code)
  have s3: "\<not> sublist (lit ''bangkokk'') (lit ''bangkok'')"
    by (simp add: lit_def sublist_code)
  have m1: "matching_total 17 (lit ''chiang mai'') (lit ''chiangg'') = 6"
    by code_simp
  have m2: "matching_total 15 (lit ''bangkok'') (lit ''bangkokk'') = 7"
    by code_simp
  have l1: "length (lit ''chiang mai'') + length (lit ''chiangg'') = 17"
    by (simp add: lit_def)
  have l2: "length (lit ''bangkok'') + length (lit ''bangkokk'') = 15"
    by (simp add: lit_def)
  have r1: "seq_ratio sample_lib (lit ''chiang mai'') (lit ''chiangg'') = 12 / 17"
    by (simp add: sample_lib_def sample_ratio_def l1 m1 del: matching_total.simps)
  have r2: "seq_ratio sample_lib (lit ''bangkok'') (lit ''bangkokk'') = 14 / 15"
    by (simp add: sample_lib_def sample_ratio_def l2 m2 del: matching_total.simps)
  have n1: "lit ''chiang'' \<noteq> []" "lit ''chiangg'' \<noteq> []" "lit ''bangkokk'' \<noteq> []"
    by (simp_all add: lit_def)
  from is_match_cases[of sample_lib "lit ''  ''" "Some (lit ''Bangkok'')" False]
    is_match_cases[of sample_lib "lit ''chiang''" "Some (lit ''Chiang Mai'')" False]
    is_match_cases[of sample_lib "lit ''chiangg''" "Some (lit ''Chiang Mai'')" False]
    is_match_cases[of sample_lib "lit ''chiangg''" "Some (lit ''Chiang Mai'')" True]
    is_match_cases[of sample_lib "lit ''bangkokk''" "Some (lit ''Bangkok'')" True]
  show ?thesis
    by (simp add: e c q1 q2 q3 b s1 s2 s3 r1 r2 n1)
qed

section \<open>Dictionaries of lists\<close>

lemma keys_setdefault_append:
  "map fst (setdefault_append k v d) = (if k \<in> fst ` set d then map fst d else map fst d @ [k])"
  by (induction d) (force simp: image_iff)+

lemma distinct_setdefault_append:
  "distinct (map fst d) \<Longrightarrow> distinct (map fst (setdefault_append k v d))"
  by (simp add: keys_setdefault_append)

lemma map_of_setdefault_append:
  "map_of (setdefault_append k v d) k' =
     (if k' = k then Some (values_of d k @ [v]) else map_of d k')"
  by (induction d) (auto simp: values_of_def)

lemma values_setdefault_append:
  "values_of (setdefault_append k v d) k' =
     (if k' = k then values_of d k @ [v] else values_of d k')"
  by (simp add: values_of_def map_of_setdefault_append)

lemma keys_append_all:
  "fst ` set (foldl (\<lambda>m p. setdefault_append c p m) d ps) =
     (if ps = [] then fst ` set d else insert c (fst ` set d))"
proof (induction ps arbitrary: d)
  case Nil show ?case by simp
next
  case (Cons p ps)
  have "fst ` set (setdefault_append c p d) = insert c (fst ` set d)"
  proof -
    have "fst ` set (setdefault_append c p d) = set (map fst (setdefault_append c p d))"
      by simp
    also have "\<dots> = insert c (fst ` set d)"
      unfolding keys_setdefault_append by auto
    finally show ?thesis .
  qed
  then show ?case by (auto simp: Cons.IH)
qed

lemma distinct_append_all:
  "distinct (map fst d) \<Longrightarrow> distinct (map fst (foldl (\<lambda>m p. setdefault_append c p m) d ps))"
  by (induction ps arbitrary: d) (simp_all add: distinct_setdefault_append)

lemma values_append_all:
  "values_of (foldl (\<lambda>m p. setdefault_append c p m) d ps) c' =
     (if c' = c then values_of d c @ ps else values_of d c')"
  by (induction ps arbitrary: d) (simp_all add: values_setdefault_append)

section \<open>The mapping built from a dataset\<close>

lemma added_locations_nonempty:
  "(p, a, d) \<in> set (added_locations pn dn sds) \<Longrightarrow> a \<noteq> [] \<and> d \<noteq> [] \<and> p = pn"
  by (induction pn dn sds rule: added_locations.induct)
     (auto split: option.splits if_splits)

lemma set_sorted_locations: "set (sorted_locations xs) = set xs"
  by (simp add: sorted_locations_def)

lemma distinct_sorted_locations: "distinct (sorted_locations xs)"
  by (simp add: sorted_locations_def)

lemma sorted_sorted_locations: "sorted (sorted_locations xs)"
  by (simp add: sorted_locations_def)

lemma place_key_mk_place: "place_key (mk_place t) = t"
  by (cases t) (simp add: place_key_def mk_place_def)

lemma inj_mk_place: "inj mk_place"
  by (rule inj_on_inverseI[where g = place_key]) (rule place_key_mk_place)

lemma record_places_good: "record_places r = Inr ps \<Longrightarrow> good_places ps"
  by (auto simp: record_places_def Let_def good_places_def list_all_iff set_sorted_locations
        mk_place_def split: sum.splits dest!: added_locations_nonempty)

lemma record_places_distinct: "record_places r = Inr ps \<Longrightarrow> distinct ps"
  by (auto simp: record_places_def Let_def distinct_map distinct_sorted_locations
        inj_on_subset[OF inj_mk_place] split: sum.splits)

lemma record_places_sorted: "record_places r = Inr ps \<Longrightarrow> sorted (map place_key ps)"
  by (auto simp: record_places_def Let_def o_def place_key_mk_place sorted_sorted_locations
        split: sum.splits)

lemma row_block_good: "good_places (row_block L r)"
  by (auto simp: row_block_def good_places_def[of "[]"] record_places_good split: sum.splits)

lemma row_block_distinct: "distinct (row_block L r)"
  by (auto simp: row_block_def record_places_distinct split: sum.splits)

lemma row_block_sorted: "sorted (map place_key (row_block L r))"
  by (auto simp: row_block_def record_places_sorted split: sum.splits)

lemma build_loop_values:
  "build_loop L rows d = Inr m \<Longrightarrow>
   values_of m c = values_of d c @ concat (map (row_block L) (filter (\<lambda>r. record_code r = c) rows))"
proof (induction rows arbitrary: d)
  case Nil
  then show ?case by simp
next
  case (Cons r rows)
  show ?case
  proof (cases "valid_code L (record_code r)")
    case False
    with Cons.prems have "build_loop L rows d = Inr m"
      by (auto simp: valid_code_def Let_def)
    from False have "row_block L r = []" by (simp add: row_block_def)
    with Cons.IH[OF \<open>build_loop L rows d = Inr m\<close>] show ?thesis by simp
  next
    case True
    with Cons.prems obtain ps where ps: "record_places r = Inr ps"
      and rest: "build_loop L rows (foldl (\<lambda>m p. setdefault_append (record_code r) p m) d ps) = Inr m"
      by (auto simp: valid_code_def Let_def split: sum.splits)
    from True ps have rb: "row_block L r = ps" by (simp add: row_block_def)
    from Cons.IH[OF rest] show ?thesis
      by (simp add: values_append_all rb)
  qed
qed

lemma build_loop_distinct:
  "build_loop L rows d = Inr m \<Longrightarrow> distinct (map fst d) \<Longrightarrow> distinct (map fst m)"
proof (induction rows arbitrary: d)
  case Nil
  then show ?case by simp
next
  case (Cons r rows)
  then show ?case
    by (auto simp: Let_def distinct_append_all split: if_splits sum.splits)
qed

lemma nonempty_setdefault_append:
  "nonempty_values d \<Longrightarrow> nonempty_values (setdefault_append k v d)"
  by (induction d) (auto simp: nonempty_values_def)

lemma nonempty_append_all:
  "nonempty_values d \<Longrightarrow> nonempty_values (foldl (\<lambda>m p. setdefault_append c p m) d ps)"
  by (induction ps arbitrary: d) (simp_all add: nonempty_setdefault_append)

lemma build_loop_nonempty:
  "build_loop L rows d = Inr m \<Longrightarrow> nonempty_values d \<Longrightarrow> nonempty_values m"
proof (induction rows arbitrary: d)
  case Nil
  then show ?case by simp
next
  case (Cons r rows)
  then show ?case
    by (auto simp: Let_def nonempty_append_all split: if_splits sum.splits)
qed

lemma map_of_values:
  "distinct (map fst d) \<Longrightarrow> (c, locs) \<in> set d \<Longrightarrow> values_of d c = locs"
  by (simp add: values_of_def)

lemma good_places_append: "good_places (xs @ ys) \<longleftrightarrow> good_places xs \<and> good_places ys"
  by (simp add: good_places_def)

lemma good_places_concat: "(\<And>xs. xs \<in> set xss \<Longrightarrow> good_places xs) \<Longrightarrow> good_places (concat xss)"
  by (induction xss) (simp_all add: good_places_append, simp add: good_places_def)

lemma fetch_values:
  "fetch_and_build_mapping L rows = Inr m \<Longrightarrow>
   values_of m c = concat (map (row_block L) (filter (\<lambda>r. record_code r = c) rows))"
  using build_loop_values[of L rows "[]" m c] by (simp add: fetch_and_build_mapping_def values_of_def)

lemma fetch_distinct: "fetch_and_build_mapping L rows = Inr m \<Longrightarrow> distinct (map fst m)"
  using build_loop_distinct[of L rows "[]" m] by (simp add: fetch_and_build_mapping_def)

lemma fetch_nonempty: "fetch_and_build_mapping L rows = Inr m \<Longrightarrow> nonempty_values m"
  using build_loop_nonempty[of L rows "[]" m]
  by (simp add: fetch_and_build_mapping_def nonempty_values_def)

lemma fetch_entry:
  assumes "fetch_and_build_mapping L rows = Inr m" and "(c, locs) \<in> set m"
  shows "locs = concat (map (row_block L) (filter (\<lambda>r. record_code r = c) rows))"
    and "locs \<noteq> []"
proof -
  from assms have "values_of m c = locs" by (simp add: map_of_values fetch_distinct)
  with fetch_values[OF assms(1), of c] show "locs = concat (map (row_block L) (filter (\<lambda>r. record_code r = c) rows))"
    by simp
  from fetch_nonempty[OF assms(1)] assms(2) show "locs \<noteq> []"
    by (auto simp: nonempty_values_def list_all_iff)
qed

lemma fetch_entry_good:
  assumes "fetch_and_build_mapping L rows = Inr m" and "(c, locs) \<in> set m"
  shows "good_places locs"
  unfolding fetch_entry(1)[OF assms]
  by (rule good_places_concat) (auto simp: row_block_good)

section \<open>The loops of the search and reverse handlers\<close>

lemma search_step_match:
  "search_step L code_q pf af df q fz results r =
     (if search_match L code_q pf af df q fz r then results @ [json_row r] else results)"
  by (auto simp: search_step_def search_match_def startswith_def)

lemma search_loop:
  "foldl (search_step L code_q pf af df q fz) results rs =
     results @ map json_row (filter (search_match L code_q pf af df q fz) rs)"
  by (induction rs arbitrary: results) (simp_all add: search_step_match)

lemma slice_nonneg: "0 \<le> offset \<Longrightarrow> 0 \<le> limit \<Longrightarrow>
  slice offset limit xs = take (nat limit) (drop (nat offset) xs)"
  by (simp add: slice_def nat_add_distrib)

lemma search_offset_nonneg: "0 \<le> search_offset L a"
  by (simp add: search_offset_def split: option.splits)

lemma search_limit_pos: "1 \<le> search_limit L a"
  by (simp add: search_limit_def split: option.splits)

lemma ForwardSearch_get_eq:
  "ForwardSearch_get L records a =
     (let ms = filter (search_match L (strip (args_get a ''code'' []))
                         (args_get a ''province'' []) (args_get a ''amphoe'' [])
                         (args_get a ''district'' []) (args_get a ''q'' [])
                         (truthy_flag L (args_get a ''fuzzy'' (lit ''false'')))) records
      in (JDict [(''total'', JInt (int (length ms))),
                 (''limit'', JInt (search_limit L a)),
                 (''offset'', JInt (search_offset L a)),
                 (''results'', JList (map json_row
                     (take (nat (search_limit L a)) (drop (nat (search_offset L a)) ms))))],
          200))"
proof -
  have "0 \<le> search_limit L a" using search_limit_pos[of L a] by simp
  then show ?thesis
    by (simp add: ForwardSearch_get_def Let_def search_loop slice_nonneg search_offset_nonneg
          take_map drop_map)
qed

lemma reverse_step_match:
  "reverse_step L pf af df fz g r =
     (if reverse_match L pf af df fz r then setdefault_append (code r) (json_place r) g else g)"
  by (auto simp: reverse_step_def reverse_match_def)

lemma reverse_loop:
  "foldl (reverse_step L pf af df fz) g rs =
     foldl (\<lambda>g r. setdefault_append (code r) (json_place r) g) g
       (filter (reverse_match L pf af df fz) rs)"
  by (induction rs arbitrary: g) (simp_all add: reverse_step_match)

lemma group_keys:
  "fst ` set (foldl (\<lambda>g r. setdefault_append (kf r) (vf r) g) g ms) = fst ` set g \<union> kf ` set ms"
proof (induction ms arbitrary: g)
  case Nil show ?case by simp
next
  case (Cons r ms)
  have "fst ` set (setdefault_append (kf r) (vf r) g) = insert (kf r) (fst ` set g)"
    using keys_append_all[of "kf r" g "[vf r]"] by simp
  then show ?case by (simp add: Cons.IH)
qed

lemma group_distinct:
  "distinct (map fst g) \<Longrightarrow>
   distinct (map fst (foldl (\<lambda>g r. setdefault_append (kf r) (vf r) g) g ms))"
  by (induction ms arbitrary: g) (simp_all add: distinct_setdefault_append)

lemma group_values:
  "values_of (foldl (\<lambda>g r. setdefault_append (kf r) (vf r) g) g ms) k =
     values_of g k @ map vf (filter (\<lambda>r. kf r = k) ms)"
  by (induction ms arbitrary: g) (auto simp: values_setdefault_append)

lemma sorted_items_distinct:
  assumes "distinct (map fst d)"
  shows "sorted_items d = map (\<lambda>k. (k, values_of d k)) (sort (map fst d))"
proof -
  have "map fst (sort_key fst d) = sort (map fst d)"
    by (rule sorted_distinct_set_unique) (use assms in \<open>simp_all add: distinct_map\<close>)
  moreover have "map (\<lambda>kv. (fst kv, values_of d (fst kv))) (sort_key fst d) = sort_key fst d"
    by (rule map_idI) (use assms in \<open>auto simp: map_of_values\<close>)
  ultimately show ?thesis
    unfolding sorted_items_def
    by (metis (no_types, lifting) map_map o_def map_eq_conv)
qed


lemma sort_keys_eq:
  "distinct xs \<Longrightarrow> set xs = set ys \<Longrightarrow> sort xs = sort (remdups ys)"
  by (rule sorted_distinct_set_unique) simp_all

lemma ReverseLookup_get_eq:
  "ReverseLookup_get L records a =
     (let ms = filter (reverse_match L (args_get a ''province'' []) (args_get a ''amphoe'' [])
                         (args_get a ''district'' [])
                         (truthy_flag L (args_get a ''fuzzy'' (lit ''false'')))) records
      in if ms = [] then (JDict [(''error'', JStr (lit ''No results found.''))], 404)
         else (JDict [(''results'',
                 JList (map (\<lambda>c. JDict [(''code'', JStr c),
                                          (''locations'',
                                           JList (map json_place (filter (\<lambda>r. code r = c) ms)))])
                         (sort (remdups (map code ms)))))], 200))"
proof -
  define ms where "ms = filter (reverse_match L (args_get a ''province'' [])
      (args_get a ''amphoe'' []) (args_get a ''district'' [])
      (truthy_flag L (args_get a ''fuzzy'' (lit ''false'')))) records"
  define g where "g = foldl (\<lambda>g r. setdefault_append (code r) (json_place r) g) [] ms"
  have d: "distinct (map fst g)" unfolding g_def by (rule group_distinct) simp
  have k: "set (map fst g) = set (map code ms)"
    using group_keys[of code json_place "[]" ms] by (simp add: g_def)
  have v: "values_of g c = map json_place (filter (\<lambda>r. code r = c) ms)" for c
    using group_values[of code json_place "[]" ms c] by (simp add: g_def values_of_def)
  have e: "g = [] \<longleftrightarrow> ms = []"
    using k by (metis list.map_disc_iff set_empty)
  have s: "sorted_items g =
      map (\<lambda>c. (c, map json_place (filter (\<lambda>r. code r = c) ms))) (sort (remdups (map code ms)))"
    by (simp add: sorted_items_distinct[OF d] v sort_keys_eq[OF d k])
  have "ReverseLookup_get L records a =
      (if g = [] then (JDict [(''error'', JStr (lit ''No results found.''))], 404)
       else (JDict [(''results'', JList (map (\<lambda>(c, locs). JDict [(''code'', JStr c),
               (''locations'', JList locs)]) (sorted_items g)))], 200))"
    by (simp add: ReverseLookup_get_def Let_def reverse_loop g_def ms_def)
  then show ?thesis
    by (simp add: e s o_def Let_def flip: ms_def)
qed

section \<open>Reverse lookup\<close>

lemma code_mk_record: "code (mk_record L c p) = c"
  by (simp add: mk_record_def)
lemma code_RECORDS: "map code (RECORDS L (map (\<lambda>c. (c, [p])) cs)) = cs"
  by (induction cs) (simp_all add: RECORDS_def code_mk_record)
lemma code_many_records: "map code many_records = many_codes"
  by (simp add: many_records_def code_RECORDS)
lemma digits_inj:
  assumes a: "i div 100 = j div 100" and b: "i div 10 mod 10 = j div 10 mod 10"
    and c: "i mod 10 = j mod 10"
  shows "i = (j::nat)"
proof -
  have "i div 10 div 10 = i div 100" "j div 10 div 10 = j div 100"
    by (simp_all flip: div_mult2_eq)
  with a have d: "i div 10 div 10 = j div 10 div 10" by simp
  have "i div 10 = i div 10 div 10 * 10 + i div 10 mod 10" by simp
  also have "\<dots> = j div 10 div 10 * 10 + j div 10 mod 10" using b d by simp
  also have "\<dots> = j div 10" by simp
  finally have e: "i div 10 = j div 10" .
  have "i = i div 10 * 10 + i mod 10" by simp
  also have "\<dots> = j div 10 * 10 + j mod 10" using c e by simp
  also have "\<dots> = j" by simp
  finally show ?thesis .
qed

lemma distinct_many_codes: "distinct many_codes"
proof -
  have "inj (\<lambda>i::nat. [0x31, 0x30, 0x30 + i div 100, 0x30 + i div 10 mod 10, 0x30 + i mod 10])"
  proof (rule injI)
    fix i j :: nat
    assume "[0x31, 0x30, 0x30 + i div 100, 0x30 + i div 10 mod 10, 0x30 + i mod 10] =
            [0x31, 0x30, 0x30 + j div 100, 0x30 + j div 10 mod 10, 0x30 + j mod 10]"
    then have "i div 100 = j div 100" "i div 10 mod 10 = j div 10 mod 10" "i mod 10 = j mod 10"
      by simp_all
    then show "i = j" by (rule digits_inj)
  qed
  then have "inj_on (\<lambda>i::nat. [0x31, 0x30, 0x30 + i div 100, 0x30 + i div 10 mod 10, 0x30 + i mod 10])
      (set [0..<101])"
    by (rule inj_on_subset) (rule subset_UNIV)
  moreover have "distinct [0..<(101::nat)]" by (rule distinct_upt)
  ultimately show ?thesis unfolding many_codes_def distinct_map by (rule conjI[rotated])
qed
lemma length_many_codes: "length many_codes = 101"
  unfolding many_codes_def length_map length_upt by simp

lemma truthy_false: "\<not> truthy_flag sample_lib (lit ''false'')"
  by (simp add: truthy_flag_def sample_lib_def lit_def ascii_lower_def)

lemma sample_records_eval:
  "map (\<lambda>r. (code r, province r, amphoe r, district r)) sample_records =
     [(lit ''10110'', Some (lit ''Bangkok''), lit ''Khlong Toei'', lit ''Khlong Tan''),
      (lit ''10110'', Some (lit ''Bangkok''), lit ''Khlong Toei'', lit ''Phra Khanong''),
      (lit ''10110'', Some (lit ''Bangkok''), lit ''Watthana'', lit ''Khlong Toei Nuea''),
      (lit ''50200'', Some (lit ''Chiang Mai''), lit ''Mueang Chiang Mai'', lit ''Phra Sing''),
      (lit ''50200'', Some (lit ''Chiang Mai''), lit ''Mueang Chiang Mai'', lit ''Si Phum'')]"
  by (simp add: sample_records_def RECORDS_def sample_mapping_def mk_record_def sample_place_def)

lemmas match_eval_simps =
  is_match_def contains_def sublist_code normalize_text_def sample_lib_def lit_def strip_def
  isspace_def ascii_lower_def Let_def

text \<open>
  Claim C1, as amended.  \<open>GET /api/reverse\<close> answers 404 with
  \<open>{"error": "No results found."}\<close> when no record passes the province, amphoe and
  district filters.  Otherwise it answers 200 with one group for every distinct code
  among the matching records, in ascending order of the code and without an upper bound
  on their number; the locations of a group are those of the matching records with that
  code, in the order of \<open>RECORDS\<close>, duplicates kept.
\<close>

theorem ReverseLookup_get_spec:
  "ReverseLookup_get L records a =
     (let ms = filter (reverse_match L (args_get a ''province'' []) (args_get a ''amphoe'' [])
                         (args_get a ''district'' [])
                         (truthy_flag L (args_get a ''fuzzy'' (lit ''false'')))) records
      in if ms = [] then (JDict [(''error'', JStr (lit ''No results found.''))], 404)
         else (JDict [(''results'',
                 JList (map (\<lambda>c. JDict [(''code'', JStr c),
                                          (''locations'',
                                           JList (map json_place (filter (\<lambda>r. code r = c) ms)))])
                         (sort (remdups (map code ms)))))], 200))"
  by (rule ReverseLookup_get_eq)

theorem ReverseLookup_get_spec_witness:
  "ReverseLookup_get sample_lib sample_records (map_of [(''province'', lit ''chiang'')]) =
     (JDict [(''results'',
        JList [JDict [(''code'', JStr (lit ''50200'')),
                      (''locations'',
                       JList [json_place (sample_place ''Chiang Mai'' ''Mueang Chiang Mai'' ''Phra Sing''),
                              json_place (sample_place ''Chiang Mai'' ''Mueang Chiang Mai'' ''Si Phum'')])]])],
      200) \<and>
   ReverseLookup_get sample_lib sample_records (map_of [(''province'', lit ''zzz'')]) =
     (JDict [(''error'', JStr (lit ''No results found.''))], 404)"
proof -
  have 1: "filter (reverse_match sample_lib (lit ''chiang'') [] [] False) sample_records =
             drop 3 sample_records"
    by (simp add: sample_records_def RECORDS_def sample_mapping_def mk_record_def
          sample_place_def reverse_match_def match_eval_simps)
  have 2: "filter (reverse_match sample_lib (lit ''zzz'') [] [] False) sample_records = []"
    by (simp add: sample_records_def RECORDS_def sample_mapping_def mk_record_def
          sample_place_def reverse_match_def match_eval_simps)
  have 3: "drop 3 sample_records =
      [mk_record sample_lib (lit ''50200'') (sample_place ''Chiang Mai'' ''Mueang Chiang Mai'' ''Phra Sing''),
       mk_record sample_lib (lit ''50200'') (sample_place ''Chiang Mai'' ''Mueang Chiang Mai'' ''Si Phum'')]"
    by (simp add: sample_records_def RECORDS_def sample_mapping_def)
  have 4: "json_place (mk_record L c p) = json_place p" for L c p
    by (simp add: mk_record_def json_place_def)
  show ?thesis
    using ReverseLookup_get_spec[of sample_lib sample_records "map_of [(''province'', lit ''chiang'')]"]
      ReverseLookup_get_spec[of sample_lib sample_records "map_of [(''province'', lit ''zzz'')]"]
    by (simp add: args_get_def truthy_false 1 2 3 4 code_mk_record Let_def)
qed

text \<open>
  The claim as stated bounds the number of groups by 100.  With one record for each of
  101 codes and no filter, the response has 101 groups.
\<close>

theorem ReverseLookup_get_counterexample:
  "json_len (json_field ''results'' (fst (ReverseLookup_get sample_lib many_records (\<lambda>k. None)))) = 101
   \<and> snd (ReverseLookup_get sample_lib many_records (\<lambda>k. None)) = 200"
proof -
  have all: "filter (reverse_match sample_lib [] [] [] fz) many_records = many_records" for fz
    by (simp add: reverse_match_def)
  have ne: "many_records \<noteq> []"
    using code_many_records by (auto simp: many_codes_def)
  have len: "length (remdups (map code many_records)) = 101"
    by (simp add: code_many_records distinct_many_codes distinct_remdups_id length_many_codes)
  show ?thesis
    by (simp add: ReverseLookup_get_eq args_get_def all ne Let_def json_field_def json_len_def len)
qed

section \<open>Forward search\<close>

lemma sample_records_list:
  "sample_records =
     [mk_record sample_lib (lit ''10110'') (sample_place ''Bangkok'' ''Khlong Toei'' ''Khlong Tan''),
      mk_record sample_lib (lit ''10110'') (sample_place ''Bangkok'' ''Khlong Toei'' ''Phra Khanong''),
      mk_record sample_lib (lit ''10110'') (sample_place ''Bangkok'' ''Watthana'' ''Khlong Toei Nuea''),
      mk_record sample_lib (lit ''50200'') (sample_place ''Chiang Mai'' ''Mueang Chiang Mai'' ''Phra Sing''),
      mk_record sample_lib (lit ''50200'') (sample_place ''Chiang Mai'' ''Mueang Chiang Mai'' ''Si Phum'')]"
  by (simp add: sample_records_def RECORDS_def sample_mapping_def)

lemma strip_sp10: "strip (lit '' 10 '') = lit ''10''"
  by (simp add: strip_def lit_def isspace_def)

lemma search_code_10:
  "filter (search_match sample_lib (lit ''10'') [] [] [] [] fz) sample_records =
     take 3 sample_records"
  by (simp add: sample_records_list search_match_def code_mk_record) (simp add: lit_def)

lemma sample_int_small:
  "sample_int (lit ''2'') = Some 2" "sample_int (lit ''1'') = Some 1"
  by (simp_all add: sample_int_def lit_def strip_def isspace_def)

text \<open>
  Claim C4, as amended.  A record is in the match set of \<open>GET /api/search\<close> exactly
  when it passes every supplied filter: the \<open>code\<close> parameter, trimmed of surrounding
  whitespace, is a prefix of the record's code (a code that is empty after trimming is
  no filter); province, amphoe and district each match through \<open>is_match\<close>; and \<open>q\<close>
  matches the province, the amphoe or the district through \<open>is_match\<close> or is a prefix of
  the code.  \<open>total\<close> is the number of all matches, and \<open>results\<close> is the match set in
  the order of \<open>RECORDS\<close>, sliced from \<open>offset\<close> to \<open>offset + limit\<close>.
\<close>

theorem ForwardSearch_get_spec:
  "ForwardSearch_get L records a =
     (let ms = filter (search_match L (strip (args_get a ''code'' []))
                         (args_get a ''province'' []) (args_get a ''amphoe'' [])
                         (args_get a ''district'' []) (args_get a ''q'' [])
                         (truthy_flag L (args_get a ''fuzzy'' (lit ''false'')))) records
      in (JDict [(''total'', JInt (int (length ms))),
                 (''limit'', JInt (search_limit L a)),
                 (''offset'', JInt (search_offset L a)),
                 (''results'', JList (map json_row
                     (take (nat (search_limit L a)) (drop (nat (search_offset L a)) ms))))],
          200))"
  by (rule ForwardSearch_get_eq)

theorem ForwardSearch_get_spec_witness:
  "ForwardSearch_get sample_lib sample_records
     (map_of [(''code'', lit '' 10 ''), (''limit'', lit ''2''), (''offset'', lit ''1'')]) =
   (JDict [(''total'', JInt 3), (''limit'', JInt 2), (''offset'', JInt 1),
           (''results'',
            JList [json_row (mk_record sample_lib (lit ''10110'')
                     (sample_place ''Bangkok'' ''Khlong Toei'' ''Phra Khanong'')),
                   json_row (mk_record sample_lib (lit ''10110'')
                     (sample_place ''Bangkok'' ''Watthana'' ''Khlong Toei Nuea''))])],
    200)"
proof -
  define a where "a = map_of [(''code'', lit '' 10 ''), (''limit'', lit ''2''), (''offset'', lit ''1'')]"
  have a: "a ''code'' = Some (lit '' 10 '')" "a ''limit'' = Some (lit ''2'')"
    "a ''offset'' = Some (lit ''1'')" "a ''province'' = None" "a ''amphoe'' = None"
    "a ''district'' = None" "a ''q'' = None" "a ''fuzzy'' = None"
    by (simp_all add: a_def)
  have l: "search_limit sample_lib a = 2"
    by (simp add: search_limit_def int_arg_def sample_int_small sample_lib_def a)
  have off: "search_offset sample_lib a = 1"
    by (simp add: search_offset_def int_arg_def sample_int_small sample_lib_def a)
  have "ForwardSearch_get sample_lib sample_records a =
   (JDict [(''total'', JInt 3), (''limit'', JInt 2), (''offset'', JInt 1),
           (''results'',
            JList [json_row (mk_record sample_lib (lit ''10110'')
                     (sample_place ''Bangkok'' ''Khlong Toei'' ''Phra Khanong'')),
                   json_row (mk_record sample_lib (lit ''10110'')
                     (sample_place ''Bangkok'' ''Watthana'' ''Khlong Toei Nuea''))])],
    200)"
    using ForwardSearch_get_spec[of sample_lib sample_records a]
    by (simp add: args_get_def a strip_sp10 search_code_10 l off Let_def)
       (simp add: sample_records_list)
  then show ?thesis by (simp only: a_def)
qed

text \<open>
  The claim as stated takes the \<open>code\<close> parameter itself as the prefix.  The parameter
  \<open>" 10 "\<close> is a prefix of no record's code, and yet the three records of 10110 match.
\<close>

theorem ForwardSearch_get_counterexample:
  "list_all (\<lambda>r. \<not> prefix (lit '' 10 '') (code r)) sample_records \<and>
   json_field ''total'' (fst (ForwardSearch_get sample_lib sample_records
      (map_of [(''code'', lit '' 10 '')]))) = JInt 3"
proof -
  define a where "a = map_of [(''code'', lit '' 10 '')]"
  have a: "a ''code'' = Some (lit '' 10 '')" "a ''limit'' = None"
    "a ''offset'' = None" "a ''province'' = None" "a ''amphoe'' = None"
    "a ''district'' = None" "a ''q'' = None" "a ''fuzzy'' = None"
    by (simp_all add: a_def)
  have 1: "list_all (\<lambda>r. \<not> prefix (lit '' 10 '') (code r)) sample_records"
    by (simp add: sample_records_list code_mk_record) (simp add: lit_def)
  have 2: "length (take 3 sample_records) = 3"
    by (simp add: sample_records_list)
  have "json_field ''total'' (fst (ForwardSearch_get sample_lib sample_records a)) = JInt 3"
    using 2
    by (simp add: ForwardSearch_get_eq args_get_def a strip_sp10 search_code_10 Let_def
          json_field_def)
  with 1 show ?thesis by (simp only: a_def simp_thms)
qed

section \<open>The search page\<close>

lemma ui_search_step_eq: "ui_search_step = search_step"
  by (intro ext) (simp add: ui_search_step_def search_step_def)

lemma lit_false_nonempty: "lit ''false'' \<noteq> []"
  by (simp add: lit_def)

lemma search_match_no_filter: "search_match L [] [] [] [] [] fz r"
  by (simp add: search_match_def)

lemma ui_search_eq:
  "ui_search L records vals =
     (let ps = [(''q'', args_get vals ''q'' []), (''code'', args_get vals ''code'' []),
                (''province'', args_get vals ''province'' []),
                (''amphoe'', args_get vals ''amphoe'' []),
                (''district'', args_get vals ''district'' []),
                (''fuzzy'', args_get vals ''fuzzy'' (lit ''false''))];
          ms = filter (search_match L (strip (args_get vals ''code'' []))
                         (args_get vals ''province'' []) (args_get vals ''amphoe'' [])
                         (args_get vals ''district'' []) (args_get vals ''q'' [])
                         (truthy_flag L (args_get vals ''fuzzy'' (lit ''false'')))) records
      in if args_get vals ''q'' [] = [] \<and> args_get vals ''code'' [] = [] \<and>
            args_get vals ''province'' [] = [] \<and> args_get vals ''amphoe'' [] = [] \<and>
            args_get vals ''district'' [] = [] \<and> args_get vals ''fuzzy'' (lit ''false'') = []
         then \<lparr>page_params = ps, page_total = 0, page_results = None\<rparr>
         else \<lparr>page_params = ps, page_total = length ms,
               page_results = Some (take 100 (map json_row ms))\<rparr>)"
  by (simp add: ui_search_def Let_def ui_search_step_eq search_loop)

text \<open>
  Claim C5 says that \<open>/ui/search\<close> renders the bare form, with no results computed,
  when no parameter is non-empty.  The guard \<open>any(params.values())\<close> reads \<open>fuzzy\<close> with
  the default \<open>"false"\<close>, a non-empty string, so a request that carries no parameter at
  all passes the guard: the page reports every record as a match and lists the first
  100 of them.  (With a parameter supplied, \<open>ui_search_eq\<close> gives the rest of the claim:
  the filters of \<open>/api/search\<close>, the full count, the first 100 matches.)
\<close>

theorem ui_search_without_parameters:
  "ui_search L records (\<lambda>k. None) =
     \<lparr>page_params = [(''q'', []), (''code'', []), (''province'', []), (''amphoe'', []),
                     (''district'', []), (''fuzzy'', lit ''false'')],
      page_total = length records,
      page_results = Some (take 100 (map json_row records))\<rparr>"
  by (simp add: ui_search_def args_get_def Let_def lit_false_nonempty ui_search_step_eq
        search_loop search_match_no_filter strip_def)

theorem ui_search_without_parameters_example:
  "page_total (ui_search sample_lib sample_records (\<lambda>k. None)) = 5 \<and>
   page_results (ui_search sample_lib sample_records (\<lambda>k. None)) =
     Some (map json_row sample_records)"
  using ui_search_without_parameters[of sample_lib sample_records]
  by (simp add: sample_records_list)

section \<open>Suggestions\<close>

lemma filter_values_take:
  "int (length picks) < limit \<Longrightarrow>
   filter_values L qn limit vs picks =
     take (nat limit) (picks @ filter (\<lambda>v. sublist qn (normalize_text L (Some v))) vs)"
proof (induction vs arbitrary: picks)
  case Nil
  then show ?case by simp
next
  case (Cons v vs)
  show ?case
  proof (cases "sublist qn (normalize_text L (Some v))")
    case False
    with Cons show ?thesis by (simp add: contains_def Let_def)
  next
    case True
    show ?thesis
    proof (cases "limit \<le> int (length picks) + 1")
      case full: True
      with Cons.prems have "nat limit = length picks + 1" by simp
      with True full show ?thesis by (simp add: contains_def Let_def)
    next
      case False
      then have "int (length (picks @ [v])) < limit" by simp
      from Cons.IH[OF this] True False show ?thesis by (simp add: contains_def Let_def)
    qed
  qed
qed

lemma suggest_limit_pos: "1 \<le> suggest_limit L a"
  by (simp add: suggest_limit_def split: option.splits)

lemma filter_values_spec:
  "filter_values L qn (suggest_limit L a) vs [] =
     take (nat (suggest_limit L a)) (filter (\<lambda>v. sublist qn (normalize_text L (Some v))) vs)"
  using filter_values_take[of "[]" "suggest_limit L a" L qn vs] suggest_limit_pos[of L a]
  by simp

lemma Suggest_get_eq:
  "Suggest_get L g a =
     (let limit = nat (suggest_limit L a);
          qn = normalize_text L (Some (args_get a ''q'' []))
      in if qn = []
         then (JDict [(''zipcodes'', json_strs (take limit (unique_zipcodes g))),
                      (''provinces'', json_strs (take limit (unique_provinces g))),
                      (''amphoes'', json_strs (take limit (unique_amphoes g))),
                      (''districts'', json_strs (take limit (unique_districts g)))], 200)
         else (JDict [(''zipcodes'',
                       json_strs (take limit (filter (prefix qn) (unique_zipcodes g)))),
                      (''provinces'',
                       json_strs (take limit
                         (filter (\<lambda>v. sublist qn (normalize_text L (Some v)))
                            (unique_provinces g)))),
                      (''amphoes'',
                       json_strs (take limit
                         (filter (\<lambda>v. sublist qn (normalize_text L (Some v)))
                            (unique_amphoes g)))),
                      (''districts'',
                       json_strs (take limit
                         (filter (\<lambda>v. sublist qn (normalize_text L (Some v)))
                            (unique_districts g))))], 200))"
  by (simp add: Suggest_get_def Let_def filter_values_spec startswith_def)

lemmas sample_app_simps =
  sample_app_def load_app_def UNIQUE_ZIPCODES_def UNIQUE_PROVINCES_def UNIQUE_AMPHOES_def
  UNIQUE_DISTRICTS_def RECORDS_def sample_mapping_def mk_record_def sample_place_def

lemma sample_app_eval:
  "sample_app =
     \<lparr>unique_zipcodes = [lit ''10110'', lit ''50200''],
      unique_provinces = [lit ''Bangkok'', lit ''Chiang Mai''],
      unique_amphoes = [lit ''Khlong Toei'', lit ''Mueang Chiang Mai'', lit ''Watthana''],
      unique_districts = [lit ''Khlong Tan'', lit ''Khlong Toei Nuea'', lit ''Phra Khanong'',
                          lit ''Phra Sing'', lit ''Si Phum'']\<rparr>"
  by (simp add: sample_app_simps lit_def)

text \<open>The four lists of a loaded dataset are sorted and free of duplicates.\<close>

lemma load_app_sorted_distinct:
  assumes "fetch_and_build_mapping L rows = Inr m"
  shows "sorted (unique_zipcodes (load_app L m)) \<and> distinct (unique_zipcodes (load_app L m)) \<and>
         sorted (unique_provinces (load_app L m)) \<and> distinct (unique_provinces (load_app L m)) \<and>
         sorted (unique_amphoes (load_app L m)) \<and> distinct (unique_amphoes (load_app L m)) \<and>
         sorted (unique_districts (load_app L m)) \<and> distinct (unique_districts (load_app L m))"
  using fetch_distinct[OF assms]
  by (simp add: load_app_def UNIQUE_ZIPCODES_def UNIQUE_PROVINCES_def UNIQUE_AMPHOES_def
        UNIQUE_DISTRICTS_def)

text \<open>
  Claim C8.  \<open>GET /api/suggest\<close> answers 200.  With an empty normalized \<open>q\<close> it returns
  the first \<open>limit\<close> entries of each of the four lists.  Otherwise the zipcode
  suggestions are the first \<open>limit\<close> codes that start with the normalized query, and the
  province, amphoe and district suggestions are the first \<open>limit\<close> values, in the order
  of their list, whose normalized form contains the normalized query.  The statement
  holds for any four lists; those of a loaded dataset are sorted and distinct
  (\<open>load_app_sorted_distinct\<close>).
\<close>

theorem Suggest_get_spec:
  "Suggest_get L g a =
     (let limit = nat (suggest_limit L a);
          qn = normalize_text L (Some (args_get a ''q'' []))
      in if qn = []
         then (JDict [(''zipcodes'', json_strs (take limit (unique_zipcodes g))),
                      (''provinces'', json_strs (take limit (unique_provinces g))),
                      (''amphoes'', json_strs (take limit (unique_amphoes g))),
                      (''districts'', json_strs (take limit (unique_districts g)))], 200)
         else (JDict [(''zipcodes'',
                       json_strs (take limit (filter (prefix qn) (unique_zipcodes g)))),
                      (''provinces'',
                       json_strs (take limit
                         (filter (\<lambda>v. sublist qn (normalize_text L (Some v)))
                            (unique_provinces g)))),
                      (''amphoes'',
                       json_strs (take limit
                         (filter (\<lambda>v. sublist qn (normalize_text L (Some v)))
                            (unique_amphoes g)))),
                      (''districts'',
                       json_strs (take limit
                         (filter (\<lambda>v. sublist qn (normalize_text L (Some v)))
                            (unique_districts g))))], 200))"
  by (rule Suggest_get_eq)

theorem Suggest_get_spec_witness:
  "Suggest_get sample_lib sample_app (map_of [(''q'', lit '' KHLONG''), (''limit'', lit ''2'')]) =
     (JDict [(''zipcodes'', json_strs []), (''provinces'', json_strs []),
             (''amphoes'', json_strs [lit ''Khlong Toei'']),
             (''districts'', json_strs [lit ''Khlong Tan'', lit ''Khlong Toei Nuea''])], 200) \<and>
   Suggest_get sample_lib sample_app (map_of [(''q'', lit ''  ''), (''limit'', lit ''2'')]) =
     (JDict [(''zipcodes'', json_strs [lit ''10110'', lit ''50200'']),
             (''provinces'', json_strs [lit ''Bangkok'', lit ''Chiang Mai'']),
             (''amphoes'', json_strs [lit ''Khlong Toei'', lit ''Mueang Chiang Mai'']),
             (''districts'', json_strs [lit ''Khlong Tan'', lit ''Khlong Toei Nuea''])], 200)"
proof -
  define a where "a = map_of [(''q'', lit '' KHLONG''), (''limit'', lit ''2'')]"
  define b where "b = map_of [(''q'', lit ''  ''), (''limit'', lit ''2'')]"
  have a: "a ''q'' = Some (lit '' KHLONG'')" "a ''limit'' = Some (lit ''2'')"
    and b: "b ''q'' = Some (lit ''  '')" "b ''limit'' = Some (lit ''2'')"
    by (simp_all add: a_def b_def)
  have l: "suggest_limit sample_lib a = 2" "suggest_limit sample_lib b = 2"
    by (simp_all add: suggest_limit_def int_arg_def sample_int_small sample_lib_def a b)
  have qa: "normalize_text sample_lib (Some (lit '' KHLONG'')) = lit ''khlong''"
    by (simp add: sample_norm_simps)
  have qb: "normalize_text sample_lib (Some (lit ''  '')) = []"
    by (simp add: sample_norm_simps)
  have n: "lit ''khlong'' \<noteq> []" by (simp add: lit_def)
  have z: "filter (prefix (lit ''khlong'')) (unique_zipcodes sample_app) = []"
    by (simp add: sample_app_eval) (simp add: lit_def)
  have f: "filter (\<lambda>v. sublist (lit ''khlong'') (normalize_text sample_lib (Some v)))
             (unique_provinces sample_app) = []"
    "filter (\<lambda>v. sublist (lit ''khlong'') (normalize_text sample_lib (Some v)))
             (unique_amphoes sample_app) = [lit ''Khlong Toei'']"
    "filter (\<lambda>v. sublist (lit ''khlong'') (normalize_text sample_lib (Some v)))
             (unique_districts sample_app) = [lit ''Khlong Tan'', lit ''Khlong Toei Nuea'']"
    by (simp_all add: sample_app_eval) (simp_all add: sample_norm_simps sublist_code)
  have "Suggest_get sample_lib sample_app a =
     (JDict [(''zipcodes'', json_strs []), (''provinces'', json_strs []),
             (''amphoes'', json_strs [lit ''Khlong Toei'']),
             (''districts'', json_strs [lit ''Khlong Tan'', lit ''Khlong Toei Nuea''])], 200)"
    using Suggest_get_spec[of sample_lib sample_app a]
    by (simp add: args_get_def a l qa n z f Let_def)
  moreover have "Suggest_get sample_lib sample_app b =
     (JDict [(''zipcodes'', json_strs [lit ''10110'', lit ''50200'']),
             (''provinces'', json_strs [lit ''Bangkok'', lit ''Chiang Mai'']),
             (''amphoes'', json_strs [lit ''Khlong Toei'', lit ''Mueang Chiang Mai'']),
             (''districts'', json_strs [lit ''Khlong Tan'', lit ''Khlong Toei Nuea''])], 200)"
    using Suggest_get_spec[of sample_lib sample_app b]
    by (simp add: args_get_def b l qb Let_def) (simp add: sample_app_eval)
  ultimately show ?thesis by (simp only: a_def b_def simp_thms)
qed

section \<open>Numeric parameters\<close>

lemma ForwardSearch_status: "snd (ForwardSearch_get L records a) = 200"
  by (simp add: ForwardSearch_get_def Let_def)

lemma Suggest_status: "snd (Suggest_get L g a) = 200"
  by (simp add: Suggest_get_def Let_def)

lemma sample_int_more:
  "sample_int (lit ''9999'') = Some 9999" "sample_int (lit ''abc'') = None"
  "sample_int (lit ''-5'') = Some (- 5)" "sample_int (lit ''12.5'') = None"
  by (simp_all add: sample_int_def lit_def strip_def isspace_def)

text \<open>
  Claim C7.  The limit of \<open>/api/search\<close> lies in \<open>[1, 200]\<close> and is 50 by default, its
  offset is at least 0 and 0 by default, the limit of \<open>/api/suggest\<close> lies in \<open>[1, 20]\<close>
  and is 10 by default; a value that \<open>int\<close> rejects gives the default, a value it accepts
  is clamped; the response carries the effective values and its status is 200 in every
  case.
\<close>

theorem numeric_parameters:
  "1 \<le> search_limit L a \<and> search_limit L a \<le> 200 \<and> 0 \<le> search_offset L a \<and>
   1 \<le> suggest_limit L a \<and> suggest_limit L a \<le> 20 \<and>
   (a ''limit'' = None \<longrightarrow> search_limit L a = 50 \<and> suggest_limit L a = 10) \<and>
   (a ''offset'' = None \<longrightarrow> search_offset L a = 0) \<and>
   (\<forall>v. a ''limit'' = Some v \<and> int_of_str L v = None \<longrightarrow>
        search_limit L a = 50 \<and> suggest_limit L a = 10) \<and>
   (\<forall>v. a ''offset'' = Some v \<and> int_of_str L v = None \<longrightarrow> search_offset L a = 0) \<and>
   (\<forall>v n. a ''limit'' = Some v \<and> int_of_str L v = Some n \<longrightarrow>
        search_limit L a = max 1 (min 200 n) \<and> suggest_limit L a = max 1 (min 20 n)) \<and>
   (\<forall>v n. a ''offset'' = Some v \<and> int_of_str L v = Some n \<longrightarrow> search_offset L a = max 0 n) \<and>
   json_field ''limit'' (fst (ForwardSearch_get L records a)) = JInt (search_limit L a) \<and>
   json_field ''offset'' (fst (ForwardSearch_get L records a)) = JInt (search_offset L a) \<and>
   snd (ForwardSearch_get L records a) = 200 \<and> snd (Suggest_get L g a) = 200"
  by (auto simp: search_limit_def search_offset_def suggest_limit_def int_arg_def
        ForwardSearch_status Suggest_status ForwardSearch_get_eq json_field_def Let_def
        split: option.splits)

theorem numeric_parameters_witness:
  "search_limit sample_lib (map_of [(''limit'', lit ''9999''), (''offset'', lit ''-5'')]) = 200 \<and>
   suggest_limit sample_lib (map_of [(''limit'', lit ''9999''), (''offset'', lit ''-5'')]) = 20 \<and>
   search_offset sample_lib (map_of [(''limit'', lit ''9999''), (''offset'', lit ''-5'')]) = 0 \<and>
   search_limit sample_lib (map_of [(''limit'', lit ''abc''), (''offset'', lit ''12.5'')]) = 50 \<and>
   suggest_limit sample_lib (map_of [(''limit'', lit ''abc''), (''offset'', lit ''12.5'')]) = 10 \<and>
   search_offset sample_lib (map_of [(''limit'', lit ''abc''), (''offset'', lit ''12.5'')]) = 0 \<and>
   search_limit sample_lib (\<lambda>k. None) = 50 \<and> suggest_limit sample_lib (\<lambda>k. None) = 10 \<and>
   search_offset sample_lib (\<lambda>k. None) = 0 \<and>
   snd (ForwardSearch_get sample_lib sample_records
          (map_of [(''limit'', lit ''abc''), (''offset'', lit ''12.5'')])) = 200 \<and>
   snd (Suggest_get sample_lib sample_app
          (map_of [(''limit'', lit ''abc''), (''offset'', lit ''12.5'')])) = 200"
proof -
  define a where "a = map_of [(''limit'', lit ''9999''), (''offset'', lit ''-5'')]"
  define b where "b = map_of [(''limit'', lit ''abc''), (''offset'', lit ''12.5'')]"
  have a: "a ''limit'' = Some (lit ''9999'')" "a ''offset'' = Some (lit ''-5'')"
    and b: "b ''limit'' = Some (lit ''abc'')" "b ''offset'' = Some (lit ''12.5'')"
    by (simp_all add: a_def b_def)
  have i: "int_of_str sample_lib = sample_int" by (simp add: sample_lib_def)
  from numeric_parameters[of sample_lib a sample_records sample_app]
    numeric_parameters[of sample_lib b sample_records sample_app]
    numeric_parameters[of sample_lib "\<lambda>k. None" sample_records sample_app]
  have "search_limit sample_lib a = 200 \<and> suggest_limit sample_lib a = 20 \<and>
    search_offset sample_lib a = 0 \<and> search_limit sample_lib b = 50 \<and>
    suggest_limit sample_lib b = 10 \<and> search_offset sample_lib b = 0 \<and>
    search_limit sample_lib (\<lambda>k. None) = 50 \<and> suggest_limit sample_lib (\<lambda>k. None) = 10 \<and>
    search_offset sample_lib (\<lambda>k. None) = 0 \<and>
    snd (ForwardSearch_get sample_lib sample_records b) = 200 \<and>
    snd (Suggest_get sample_lib sample_app b) = 200"
    by (simp add: a b i sample_int_more)
  then show ?thesis by (simp only: a_def b_def)
qed

section \<open>Order and duplicates within a postal code\<close>

lemma str_50200: "str_int 50200 = lit ''50200''"
  by (simp add: str_int_def str_nat.simps lit_def)

lemmas build_eval_simps =
  fetch_and_build_mapping_def record_code_def str_zipCode_def zfill_def isdigit_def
  sample_lib_def sample_isdigit_def record_places_def dict_comp_def pick_province_def
  sorted_keys_def dict_get_def sorted_locations_def mk_place_def sample_place_def Let_def

lemma sample_build: "fetch_and_build_mapping sample_lib sample_rows = Inr sample_mapping"
  by (simp add: sample_rows_def sample_mapping_def build_eval_simps str_50200 lit_def)

lemma shared_build:
  "fetch_and_build_mapping sample_lib shared_code_rows =
     Inr [(lit ''10110'',
           [sample_place ''Bangkok'' ''Khlong Toei'' ''Phra Khanong'',
            sample_place ''Bangkok'' ''Khlong Toei'' ''Khlong Tan'',
            sample_place ''Bangkok'' ''Khlong Toei'' ''Phra Khanong''])]"
  by (simp add: shared_code_rows_def build_eval_simps lit_def)

text \<open>
  Claim C2, as amended.  For every postal code of the mapping that only one row of the
  dataset carries, the list of places has no duplicate triple and is sorted in
  ascending order of \<open>(province, amphoe, district)\<close>.  (In general the list of a code
  is the concatenation, in the order of the rows, of one sorted duplicate-free block
  for each row that carries the code: \<open>fetch_entry\<close>.)
\<close>

theorem mapping_places_sorted_distinct:
  assumes "fetch_and_build_mapping L rows = Inr m"
    and "(c, locs) \<in> set m"
    and "length (filter (\<lambda>r. record_code r = c) rows) \<le> 1"
  shows "distinct locs \<and> sorted (map place_key locs)"
proof -
  from assms(3) consider "filter (\<lambda>r. record_code r = c) rows = []"
    | r where "filter (\<lambda>r. record_code r = c) rows = [r]"
    by (cases "filter (\<lambda>r. record_code r = c) rows" rule: list.exhaust)
       (auto simp: Suc_le_eq)
  then show ?thesis
  proof cases
    case 1
    with fetch_entry(1)[OF assms(1,2)] show ?thesis by simp
  next
    case 2
    with fetch_entry(1)[OF assms(1,2)] have "locs = row_block L r" by simp
    then show ?thesis by (simp add: row_block_distinct row_block_sorted)
  qed
qed

theorem mapping_places_sorted_distinct_witness:
  "fetch_and_build_mapping sample_lib sample_rows = Inr sample_mapping \<and>
   length (filter (\<lambda>r. record_code r = lit ''10110'') sample_rows) = 1 \<and>
   distinct [sample_place ''Bangkok'' ''Khlong Toei'' ''Khlong Tan'',
             sample_place ''Bangkok'' ''Khlong Toei'' ''Phra Khanong'',
             sample_place ''Bangkok'' ''Watthana'' ''Khlong Toei Nuea''] \<and>
   sorted (map place_key
            [sample_place ''Bangkok'' ''Khlong Toei'' ''Khlong Tan'',
             sample_place ''Bangkok'' ''Khlong Toei'' ''Phra Khanong'',
             sample_place ''Bangkok'' ''Watthana'' ''Khlong Toei Nuea''])"
proof -
  have 1: "length (filter (\<lambda>r. record_code r = lit ''10110'') sample_rows) = 1"
    by (simp add: sample_rows_def record_code_def str_zipCode_def zfill_def str_50200)
       (simp add: lit_def)
  have 2: "(lit ''10110'',
            [sample_place ''Bangkok'' ''Khlong Toei'' ''Khlong Tan'',
             sample_place ''Bangkok'' ''Khlong Toei'' ''Phra Khanong'',
             sample_place ''Bangkok'' ''Watthana'' ''Khlong Toei Nuea'']) \<in> set sample_mapping"
    by (simp add: sample_mapping_def)
  from mapping_places_sorted_distinct[OF sample_build 2] 1 sample_build
  show ?thesis by simp
qed

text \<open>
  The claim as stated includes datasets in which several rows carry the same code.
  Deduplication and sorting happen within a row: two rows with the code 10110 that
  both list Phra Khanong leave that place twice under the code, and out of order.
\<close>

theorem mapping_places_counterexample:
  "fetch_and_build_mapping sample_lib shared_code_rows =
     Inr [(lit ''10110'',
           [sample_place ''Bangkok'' ''Khlong Toei'' ''Phra Khanong'',
            sample_place ''Bangkok'' ''Khlong Toei'' ''Khlong Tan'',
            sample_place ''Bangkok'' ''Khlong Toei'' ''Phra Khanong''])] \<and>
   \<not> distinct [sample_place ''Bangkok'' ''Khlong Toei'' ''Phra Khanong'',
               sample_place ''Bangkok'' ''Khlong Toei'' ''Khlong Tan'',
               sample_place ''Bangkok'' ''Khlong Toei'' ''Phra Khanong''] \<and>
   \<not> sorted (map place_key
               [sample_place ''Bangkok'' ''Khlong Toei'' ''Phra Khanong'',
                sample_place ''Bangkok'' ''Khlong Toei'' ''Khlong Tan'',
                sample_place ''Bangkok'' ''Khlong Toei'' ''Phra Khanong''])"
proof -
  have "\<not> sorted (map place_key
               [sample_place ''Bangkok'' ''Khlong Toei'' ''Phra Khanong'',
                sample_place ''Bangkok'' ''Khlong Toei'' ''Khlong Tan'',
                sample_place ''Bangkok'' ''Khlong Toei'' ''Phra Khanong''])"
    by (simp add: place_key_def sample_place_def lit_def)
  with shared_build show ?thesis by simp
qed

section \<open>Zipcode lookup\<close>

lemma map_of_entry:
  assumes "fetch_and_build_mapping L rows = Inr m" and "map_of m c = Some locs"
  shows "locs \<noteq> []" and "good_places locs"
proof -
  from assms(2) have "(c, locs) \<in> set m" by (rule map_of_SomeD)
  then show "locs \<noteq> []" "good_places locs"
    using fetch_entry(2)[OF assms(1)] fetch_entry_good[OF assms(1)] by blast+
qed

lemma ZipcodeLookup_get_eq:
  assumes "fetch_and_build_mapping L rows = Inr m"
  shows "ZipcodeLookup_get L m code_arg =
     (if \<not> (isdigit L (strip code_arg) \<and> length (strip code_arg) = 5)
      then (JDict [(''error'', JStr (lit ''Invalid zipcode. Must be 5 digits.''))], 400)
      else case map_of m (strip code_arg) of
             None \<Rightarrow> (JDict [(''error'', JStr (lit ''Zipcode not found in dataset.'')),
                              (''code'', JStr (strip code_arg))], 404)
           | Some locs \<Rightarrow> (JDict [(''code'', JStr (strip code_arg)),
                                   (''locations'', JList (map json_place locs))], 200))"
  using map_of_entry(1)[OF assms]
  by (auto simp: ZipcodeLookup_get_def Let_def split: option.splits)

lemma sample_strips:
  "strip (lit '' 50200 '') = lit ''50200''" "strip (lit ''abcde'') = lit ''abcde''"
  "strip (lit ''00000'') = lit ''00000''" "strip (lit ''1234'') = lit ''1234''"
  "strip [0x661, 0x662, 0x663, 0x664, 0x665] = [0x661, 0x662, 0x663, 0x664, 0x665]"
  by (simp_all add: strip_def lit_def isspace_def)

lemma sample_digits:
  "isdigit sample_lib (lit ''50200'')" "\<not> isdigit sample_lib (lit ''abcde'')"
  "isdigit sample_lib (lit ''00000'')" "isdigit sample_lib (lit ''1234'')"
  "isdigit sample_lib [0x661, 0x662, 0x663, 0x664, 0x665]"
  by (simp_all add: isdigit_def sample_lib_def sample_isdigit_def lit_def)

lemma sample_lookups:
  "map_of sample_mapping (lit ''50200'') =
     Some [sample_place ''Chiang Mai'' ''Mueang Chiang Mai'' ''Phra Sing'',
           sample_place ''Chiang Mai'' ''Mueang Chiang Mai'' ''Si Phum'']"
  "map_of sample_mapping (lit ''00000'') = None"
  "map_of sample_mapping [0x661, 0x662, 0x663, 0x664, 0x665] = None"
  by (simp_all add: sample_mapping_def lit_def)

lemma sample_lengths:
  "length (lit ''50200'') = 5" "length (lit ''abcde'') = 5" "length (lit ''00000'') = 5"
  "length (lit ''1234'') = 4"
  by (simp_all add: lit_def)

text \<open>
  Claim C3, as amended.  For the mapping built from any dataset and every path input:
  if the trimmed code is not a string of exactly 5 characters that all satisfy
  \<open>str.isdigit\<close> (the Unicode digits, of which the ASCII digits are a part), the
  response is 400 with \<open>{"error": "Invalid zipcode. Must be 5 digits."}\<close>; otherwise,
  if the trimmed code is not a key of the mapping, it is 404 with
  \<open>{"error": "Zipcode not found in dataset.", "code": code}\<close>; otherwise it is 200 with
  the code and its locations in the stored order.
\<close>

theorem ZipcodeLookup_get_cases:
  assumes "fetch_and_build_mapping L rows = Inr m"
  shows "ZipcodeLookup_get L m code_arg =
     (if \<not> (isdigit L (strip code_arg) \<and> length (strip code_arg) = 5)
      then (JDict [(''error'', JStr (lit ''Invalid zipcode. Must be 5 digits.''))], 400)
      else case map_of m (strip code_arg) of
             None \<Rightarrow> (JDict [(''error'', JStr (lit ''Zipcode not found in dataset.'')),
                              (''code'', JStr (strip code_arg))], 404)
           | Some locs \<Rightarrow> (JDict [(''code'', JStr (strip code_arg)),
                                   (''locations'', JList (map json_place locs))], 200))"
  using assms by (rule ZipcodeLookup_get_eq)

theorem ZipcodeLookup_get_cases_witness:
  "fetch_and_build_mapping sample_lib sample_rows = Inr sample_mapping \<and>
   ZipcodeLookup_get sample_lib sample_mapping (lit '' 50200 '') =
     (JDict [(''code'', JStr (lit ''50200'')),
             (''locations'',
              JList [json_place (sample_place ''Chiang Mai'' ''Mueang Chiang Mai'' ''Phra Sing''),
                     json_place (sample_place ''Chiang Mai'' ''Mueang Chiang Mai'' ''Si Phum'')])],
      200) \<and>
   ZipcodeLookup_get sample_lib sample_mapping (lit ''00000'') =
     (JDict [(''error'', JStr (lit ''Zipcode not found in dataset.'')),
             (''code'', JStr (lit ''00000''))], 404) \<and>
   ZipcodeLookup_get sample_lib sample_mapping (lit ''abcde'') =
     (JDict [(''error'', JStr (lit ''Invalid zipcode. Must be 5 digits.''))], 400) \<and>
   ZipcodeLookup_get sample_lib sample_mapping (lit ''1234'') =
     (JDict [(''error'', JStr (lit ''Invalid zipcode. Must be 5 digits.''))], 400)"
  using ZipcodeLookup_get_cases[OF sample_build, of "lit '' 50200 ''"]
    ZipcodeLookup_get_cases[OF sample_build, of "lit ''00000''"]
    ZipcodeLookup_get_cases[OF sample_build, of "lit ''abcde''"]
    ZipcodeLookup_get_cases[OF sample_build, of "lit ''1234''"]
  by (simp add: sample_build sample_strips sample_digits sample_lookups sample_lengths)

text \<open>
  The claim as stated promises 400 for every code that is not 5 ASCII digits.  The five
  Arabic-Indic digits U+0661 ... U+0665 are not ASCII digits, pass \<open>str.isdigit\<close>, and
  get the answer 404.
\<close>

theorem ZipcodeLookup_get_counterexample:
  "\<not> ascii_digits5 (strip [0x661, 0x662, 0x663, 0x664, 0x665]) \<and>
   ZipcodeLookup_get sample_lib sample_mapping [0x661, 0x662, 0x663, 0x664, 0x665] =
     (JDict [(''error'', JStr (lit ''Zipcode not found in dataset.'')),
             (''code'', JStr [0x661, 0x662, 0x663, 0x664, 0x665])], 404)"
  using ZipcodeLookup_get_eq[OF sample_build, of "[0x661, 0x662, 0x663, 0x664, 0x665]"]
  by (simp add: sample_strips sample_digits sample_lookups ascii_digits5_def)

text \<open>
  Claim C10.  In the mapping built from any dataset every key has a non-empty list of
  places, and every stored place has a non-empty amphoe and a non-empty district.
  Hence, for a code that passes the validation of the zipcode endpoint, the answer is
  404 exactly when the code is not a key, and a key gives 200 with a non-empty list of
  locations.
\<close>

theorem mapping_entries_nonempty:
  assumes "fetch_and_build_mapping L rows = Inr m"
  shows "(\<forall>(c, locs) \<in> set m.
            locs \<noteq> [] \<and> (\<forall>p \<in> set locs. amphoe p \<noteq> [] \<and> district p \<noteq> [])) \<and>
         (\<forall>code_arg. valid_code L (strip code_arg) \<longrightarrow>
            (snd (ZipcodeLookup_get L m code_arg) = 404 \<longleftrightarrow> strip code_arg \<notin> fst ` set m) \<and>
            (strip code_arg \<in> fst ` set m \<longrightarrow>
               snd (ZipcodeLookup_get L m code_arg) = 200 \<and>
               json_len (json_field ''locations'' (fst (ZipcodeLookup_get L m code_arg))) > 0))"
proof (intro conjI allI impI)
  show "\<forall>(c, locs) \<in> set m. locs \<noteq> [] \<and> (\<forall>p \<in> set locs. amphoe p \<noteq> [] \<and> district p \<noteq> [])"
    using fetch_entry(2)[OF assms] fetch_entry_good[OF assms]
    by (auto simp: good_places_def list_all_iff)
next
  fix code_arg
  assume v: "valid_code L (strip code_arg)"
  have k: "strip code_arg \<in> fst ` set m \<longleftrightarrow> map_of m (strip code_arg) \<noteq> None"
    by (simp add: map_of_eq_None_iff)
  from v show "snd (ZipcodeLookup_get L m code_arg) = 404 \<longleftrightarrow> strip code_arg \<notin> fst ` set m"
    unfolding k ZipcodeLookup_get_eq[OF assms]
    by (auto simp: valid_code_def split: option.splits)
  assume "strip code_arg \<in> fst ` set m"
  then obtain locs where l: "map_of m (strip code_arg) = Some locs"
    unfolding k by blast
  from map_of_entry(1)[OF assms l] v l
  show "snd (ZipcodeLookup_get L m code_arg) = 200"
    "json_len (json_field ''locations'' (fst (ZipcodeLookup_get L m code_arg))) > 0"
    unfolding ZipcodeLookup_get_eq[OF assms]
    by (simp_all add: valid_code_def json_field_def json_len_def)
qed

theorem mapping_entries_nonempty_witness:
  "fetch_and_build_mapping sample_lib sample_rows = Inr sample_mapping \<and>
   list_all (\<lambda>(c, locs). locs \<noteq> [] \<and> list_all (\<lambda>p. amphoe p \<noteq> [] \<and> district p \<noteq> []) locs)
     sample_mapping \<and>
   valid_code sample_lib (strip (lit '' 50200 '')) \<and>
   strip (lit '' 50200 '') \<in> fst ` set sample_mapping \<and>
   snd (ZipcodeLookup_get sample_lib sample_mapping (lit '' 50200 '')) = 200 \<and>
   valid_code sample_lib (strip (lit ''00000'')) \<and>
   strip (lit ''00000'') \<notin> fst ` set sample_mapping \<and>
   snd (ZipcodeLookup_get sample_lib sample_mapping (lit ''00000'')) = 404"
proof -
  have 1: "strip (lit '' 50200 '') \<in> fst ` set sample_mapping"
    by (simp add: sample_strips sample_mapping_def)
  have 2: "strip (lit ''00000'') \<notin> fst ` set sample_mapping"
    by (simp add: sample_strips sample_mapping_def) (simp add: lit_def)
  have 3: "valid_code sample_lib (strip (lit '' 50200 ''))"
    "valid_code sample_lib (strip (lit ''00000''))"
    by (simp_all add: valid_code_def sample_strips sample_digits sample_lengths)
  from mapping_entries_nonempty[OF sample_build] 1 2 3 sample_build
  show ?thesis by (auto simp: list_all_iff)
qed

end
